theory Spec2Isabelle
  imports Complex_Main
begin

section \<open>Numbers\<close>

text \<open>
  The program is TypeScript; its numbers are modelled as unbounded integers (grid sizes,
  indices, degrees) where the source computes with whole numbers. Two operators differ
  from their HOL namesakes and are written out:
  \<^item> \<^verbatim>\<open>a % b\<close> takes the sign of the dividend (truncated remainder);
  \<^item> division or remainder by zero yields \<^verbatim>\<open>NaN\<close>/\<^verbatim>\<open>Infinity\<close>, modelled as \<open>None\<close>.
  \<^verbatim>\<open>Math.floor(a / b)\<close> is the floor division \<open>a div b\<close> of \<open>int\<close> for \<open>b \<noteq> 0\<close>.
\<close>

definition js_rem :: "int \<Rightarrow> int \<Rightarrow> int" where
  "js_rem a b = sgn a * (\<bar>a\<bar> mod \<bar>b\<bar>)"

section \<open>Types\<close>

datatype kind =
    Solid | Horizontal | Vertical | Diagonal | Checkerboard
  | Quartersquare | Ninepatch | Pinwheel | Flyinggeese

record Pattern =
  ptype :: kind
  colors :: "string list"
  rotation :: "int option"

record GridConfig =
  rows :: int
  cols :: int

section \<open>Grid orientation\<close>

text \<open>
  \<^verbatim>\<open>landscapeToPortrait\<close>: the result is \<open>None\<close> where the source computes \<^verbatim>\<open>NaN\<close>
  (\<^verbatim>\<open>gridConfig.rows\<close> is zero).
\<close>

definition landscapeToPortrait :: "GridConfig \<Rightarrow> int \<Rightarrow> int option" where
  "landscapeToPortrait gc landscapeIndex =
     (let landscapeCols = rows gc;
          landscapeRows = cols gc
      in if landscapeCols = 0 then None
         else
           let row = landscapeIndex div landscapeCols;
               col = js_rem landscapeIndex landscapeCols;
               portraitRow = col;
               portraitCol = landscapeRows - 1 - row
           in Some (portraitRow * cols gc + portraitCol))"

text \<open>
  The index transform as the specification words it: a display grid of \<open>dCols\<close> columns
  and \<open>dRows\<close> rows over a logical grid of \<open>logicalCols\<close> columns.
\<close>

definition spec_rotation_index :: "int \<Rightarrow> int \<Rightarrow> int \<Rightarrow> int \<Rightarrow> int" where
  "spec_rotation_index dRows dCols logicalCols i =
     (let row = i div dCols;
          col = i mod dCols;
          logicalRow = col;
          logicalCol = dRows - 1 - row
      in logicalRow * logicalCols + logicalCol)"


section \<open>Random patterns\<close>

text \<open>
  \<^verbatim>\<open>Math.random()\<close> is ambient state: the generator is the sequence of the numbers it
  will return, and every call takes the first one. Nothing is assumed about their range.
\<close>

type_synonym rng = "nat \<Rightarrow> real"

definition random :: "rng \<Rightarrow> real \<times> rng" where
  "random g = (g 0, \<lambda>n. g (Suc n))"

text \<open>Template literals print a whole number in decimal.\<close>

fun digits :: "nat \<Rightarrow> string" where
  "digits n =
     (if n < 10 then [''0123456789'' ! n]
      else digits (n div 10) @ [''0123456789'' ! (n mod 10)])"

declare digits.simps [simp del]

definition show_int :: "int \<Rightarrow> string" where
  "show_int i = (if i < 0 then CHR ''-'' # digits (nat (- i)) else digits (nat i))"

definition getRandomColor :: "rng \<Rightarrow> string \<times> rng" where
  "getRandomColor g0 =
     (let (r1, g1) = random g0;
          hue = \<lfloor>r1 * 360\<rfloor>;
          (r2, g2) = random g1;
          saturation = 60 + \<lfloor>r2 * 30\<rfloor>;
          (r3, g3) = random g2;
          lightness = 60 + \<lfloor>r3 * 20\<rfloor>
      in (''hsl('' @ show_int hue @ '', '' @ show_int saturation @ ''%, ''
            @ show_int lightness @ ''%)'', g3))"

text \<open>
  \<open>n\<close> successive calls of \<^verbatim>\<open>getRandomColor\<close>, in order: the \<^verbatim>\<open>for\<close> loop that pushes
  the stripe colours, and the array literals that call it two, three or four times.
\<close>

fun getRandomColors :: "nat \<Rightarrow> rng \<Rightarrow> string list \<times> rng" where
  "getRandomColors 0 g = ([], g)"
| "getRandomColors (Suc n) g =
     (let (c, g1) = getRandomColor g;
          (cs, g2) = getRandomColors n g1
      in (c # cs, g2))"

text \<open>
  Array indexing: \<^verbatim>\<open>xs[i]\<close> is \<^verbatim>\<open>undefined\<close> outside the array. The kind drawn by
  \<^verbatim>\<open>createRandomPattern\<close> is such a read; where it is \<^verbatim>\<open>undefined\<close> no branch of
  the chain matches and the final fallback returns a solid pattern.
\<close>

definition lookup :: "'a list \<Rightarrow> int \<Rightarrow> 'a option" where
  "lookup xs i = (if 0 \<le> i \<and> i < int (length xs) then Some (xs ! nat i) else None)"

definition types :: "kind list" where
  "types = [Solid, Horizontal, Vertical, Diagonal, Checkerboard,
            Quartersquare, Ninepatch, Pinwheel, Flyinggeese]"

definition createRandomPattern :: "rng \<Rightarrow> Pattern \<times> rng" where
  "createRandomPattern g0 =
     (let (r, g1) = random g0
      in case lookup types \<lfloor>r * real (length types)\<rfloor> of
           None \<Rightarrow>
             (let (cs, g2) = getRandomColors 1 g1
              in (\<lparr>ptype = Solid, colors = cs, rotation = Some 0\<rparr>, g2))
         | Some type \<Rightarrow>
             if type = Solid then
               (let (cs, g2) = getRandomColors 1 g1
                in (\<lparr>ptype = Solid, colors = cs, rotation = Some 0\<rparr>, g2))
             else if type = Horizontal \<or> type = Vertical \<or> type = Diagonal then
               (let (stripeColors, g2) = getRandomColors 5 g1
                in (\<lparr>ptype = type, colors = stripeColors, rotation = Some 0\<rparr>, g2))
             else if type = Checkerboard then
               (let (cs, g2) = getRandomColors 2 g1
                in (\<lparr>ptype = Checkerboard, colors = cs, rotation = Some 0\<rparr>, g2))
             else if type = Quartersquare then
               (let (cs, g2) = getRandomColors 4 g1
                in (\<lparr>ptype = Quartersquare, colors = cs, rotation = Some 0\<rparr>, g2))
             else if type = Ninepatch then
               (let (cs, g2) = getRandomColors 3 g1
                in (\<lparr>ptype = Ninepatch, colors = cs, rotation = Some 0\<rparr>, g2))
             else if type = Pinwheel then
               (let (cs, g2) = getRandomColors 2 g1
                in (\<lparr>ptype = Pinwheel, colors = cs, rotation = Some 0\<rparr>, g2))
             else if type = Flyinggeese then
               (let (cs, g2) = getRandomColors 3 g1
                in (\<lparr>ptype = Flyinggeese, colors = cs, rotation = Some 0\<rparr>, g2))
             else
               (let (cs, g2) = getRandomColors 1 g1
                in (\<lparr>ptype = Solid, colors = cs, rotation = Some 0\<rparr>, g2)))"

text \<open>
  The number of colour slots of each kind, as \<^verbatim>\<open>updateColorPickers\<close> sets \<^verbatim>\<open>numColors\<close>
  for the pattern designer.
\<close>

definition numColors :: "kind \<Rightarrow> nat" where
  "numColors type =
     (if type = Solid then 1
      else if type = Horizontal \<or> type = Vertical \<or> type = Diagonal then 5
      else if type = Checkerboard then 2
      else if type = Quartersquare then 4
      else if type = Ninepatch then 3
      else if type = Pinwheel then 2
      else if type = Flyinggeese then 3
      else 1)"

text \<open>The loop of \<^verbatim>\<open>initializeColors\<close>: \<open>n\<close> patterns pushed in order.\<close>

fun createRandomPatterns :: "nat \<Rightarrow> rng \<Rightarrow> Pattern list \<times> rng" where
  "createRandomPatterns 0 g = ([], g)"
| "createRandomPatterns (Suc n) g =
     (let (p, g1) = createRandomPattern g;
          (ps, g2) = createRandomPatterns n g1
      in (p # ps, g2))"

section \<open>The style renderer\<close>

text \<open>
  \<^verbatim>\<open>getPatternStyle\<close> returns CSS text. The model keeps the syntax tree of that text: a
  colour, a \<^verbatim>\<open>linear-gradient\<close> with its direction and colour stops (in percent), or an
  SVG image over the view box \<open>0 0 100 100\<close> with the \<^verbatim>\<open>rect\<close> and \<^verbatim>\<open>polygon\<close> elements
  in the order the text lists them (\<open>NoStyle\<close> is the empty text of the final
  \<^verbatim>\<open>return\<close>). Coordinates are the decimal numbers of the text.
  A template literal prints a missing colour as the word \<^verbatim>\<open>undefined\<close>; calling
  \<^verbatim>\<open>replace\<close> on a missing colour raises a \<^verbatim>\<open>TypeError\<close>.
\<close>

datatype error = TypeError | SyntaxError string

datatype direction = ToBottom | ToRight | Deg45

datatype svg =
    SvgRect real real real real string
  | SvgPolygon "(real \<times> real) list" string

datatype style =
    Color "string option"
  | LinearGradient direction "(string \<times> real) list"
  | SvgImage "svg list"
  | NoStyle

text \<open>\<^verbatim>\<open>c.replace("#", "%23")\<close> replaces the first occurrence only.\<close>

fun replace_hash :: "string \<Rightarrow> string" where
  "replace_hash [] = []"
| "replace_hash (c # cs) = (if c = CHR ''#'' then ''%23'' @ cs else c # replace_hash cs)"

definition template :: "string option \<Rightarrow> string" where
  "template v = (case v of None \<Rightarrow> ''undefined'' | Some s \<Rightarrow> s)"

text \<open>The loop that builds \<^verbatim>\<open>gradientStops\<close>, the same in the three stripe kinds.\<close>

definition gradientStops :: "string list \<Rightarrow> (string \<times> real) list" where
  "gradientStops cs =
     (let stripeWidth = 100 / 5
      in concat (map (\<lambda>i. let start = real i * stripeWidth;
                                 end = (real i + 1) * stripeWidth
                             in [(template (lookup cs (int i)), start),
                                 (template (lookup cs (int i)), end)])
                     [0..<5]))"

definition getPatternStyle :: "Pattern \<Rightarrow> error + style" where
  "getPatternStyle pattern =
     (if ptype pattern = Solid then Inr (Color (lookup (colors pattern) 0))
      else if ptype pattern = Horizontal then
        Inr (LinearGradient ToBottom (gradientStops (colors pattern)))
      else if ptype pattern = Vertical then
        Inr (LinearGradient ToRight (gradientStops (colors pattern)))
      else if ptype pattern = Diagonal then
        Inr (LinearGradient Deg45 (gradientStops (colors pattern)))
      else if ptype pattern = Checkerboard then
        (case lookup (colors pattern) 0 of None \<Rightarrow> Inl TypeError | Some k0 \<Rightarrow>
         (case lookup (colors pattern) 1 of None \<Rightarrow> Inl TypeError | Some k1 \<Rightarrow>
           (let c1 = replace_hash k0; c2 = replace_hash k1
           in Inr (SvgImage (concat (map (\<lambda>row. map (\<lambda>col.
                  let color = (if (row + col) mod 2 = 0 then c1 else c2)
                  in SvgRect (real col * 25) (real row * 25) 25 25 color)
                [0..<4]) [0..<(4::nat)]))))))
      else if ptype pattern = Quartersquare then
        (case lookup (colors pattern) 0 of None \<Rightarrow> Inl TypeError | Some k0 \<Rightarrow>
         (case lookup (colors pattern) 1 of None \<Rightarrow> Inl TypeError | Some k1 \<Rightarrow>
         (case lookup (colors pattern) 2 of None \<Rightarrow> Inl TypeError | Some k2 \<Rightarrow>
         (case lookup (colors pattern) 3 of None \<Rightarrow> Inl TypeError | Some k3 \<Rightarrow>
           (let c0 = replace_hash k0; c1 = replace_hash k1;
               c2 = replace_hash k2; c3 = replace_hash k3
           in Inr (SvgImage
                [SvgPolygon [(0, 0), (100, 0), (50, 50)] c0,
                 SvgPolygon [(100, 0), (100, 100), (50, 50)] c1,
                 SvgPolygon [(100, 100), (0, 100), (50, 50)] c2,
                 SvgPolygon [(0, 100), (0, 0), (50, 50)] c3]))))))
      else if ptype pattern = Ninepatch then
        (let colors' = map replace_hash (colors pattern)
         in Inr (SvgImage (concat (map (\<lambda>row. map (\<lambda>col.
                  let colorIndex =
                        (if length colors' = 0 then None
                         else Some (int ((row * 3 + col) mod length colors')))
                  in SvgRect (real col * 33.33) (real row * 33.33) 33.34 33.34
                       (template (case colorIndex of None \<Rightarrow> None
                                  | Some k \<Rightarrow> lookup colors' k)))
                [0..<3]) [0..<(3::nat)]))))
      else if ptype pattern = Pinwheel then
        (case lookup (colors pattern) 0 of None \<Rightarrow> Inl TypeError | Some k0 \<Rightarrow>
         (case lookup (colors pattern) 1 of None \<Rightarrow> Inl TypeError | Some k1 \<Rightarrow>
           (let c0 = replace_hash k0; c1 = replace_hash k1
           in Inr (SvgImage
                [SvgPolygon [(50, 50), (0, 0), (50, 0)] c0,
                 SvgPolygon [(50, 50), (50, 0), (100, 0)] c1,
                 SvgPolygon [(50, 50), (100, 0), (100, 50)] c0,
                 SvgPolygon [(50, 50), (100, 50), (100, 100)] c1,
                 SvgPolygon [(50, 50), (100, 100), (50, 100)] c0,
                 SvgPolygon [(50, 50), (50, 100), (0, 100)] c1,
                 SvgPolygon [(50, 50), (0, 100), (0, 50)] c0,
                 SvgPolygon [(50, 50), (0, 50), (0, 0)] c1]))))
      else if ptype pattern = Flyinggeese then
        (case lookup (colors pattern) 0 of None \<Rightarrow> Inl TypeError | Some k0 \<Rightarrow>
         (case lookup (colors pattern) 1 of None \<Rightarrow> Inl TypeError | Some k1 \<Rightarrow>
         (case lookup (colors pattern) 2 of None \<Rightarrow> Inl TypeError | Some k2 \<Rightarrow>
           (let c0 = replace_hash k0; c1 = replace_hash k1; c2 = replace_hash k2
           in Inr (SvgImage
                [SvgPolygon [(0, 0), (0, 100), (50, 50)] c0,
                 SvgPolygon [(50, 0), (50, 100), (100, 50)] c1,
                 SvgPolygon [(0, 0), (50, 0), (50, 50)] c2,
                 SvgPolygon [(50, 0), (100, 0), (100, 50)] c2,
                 SvgPolygon [(0, 100), (50, 100), (50, 50)] c2,
                 SvgPolygon [(50, 100), (100, 100), (100, 50)] c2])))))
      else Inr NoStyle)"

section \<open>Session state and the interactive view\<close>

text \<open>
  The module's variables, the window size the code reads, the random generator and
  what the code shows (the children of the \<^verbatim>\<open>quilt\<close> and \<^verbatim>\<open>libraryItems\<close> elements)
  are one record, passed through every operation. The variables \<^verbatim>\<open>rows\<close> and
  \<^verbatim>\<open>cols\<close> are the fields \<open>rows_st\<close> and \<open>cols_st\<close>, the names \<open>rows\<close> and \<open>cols\<close> being
  the fields of \<open>GridConfig\<close>. Patterns are values: the code never shares a pattern object
  between two slots (every copy goes through \<^verbatim>\<open>JSON.parse(JSON.stringify(...))\<close>).
  A square of the view keeps the background that \<^verbatim>\<open>applyPatternToElement\<close> gives it
  and the degrees of its \<^verbatim>\<open>rotate\<close> transform; pixel sizes and event handlers are left out.
  An operation returns the state it leaves behind together with the exception it
  raised, if any: what was assigned before a \<^verbatim>\<open>throw\<close> stays assigned.
\<close>

record square =
  background :: style
  transform :: int

record session =
  rows_st :: int
  cols_st :: int
  patterns :: "Pattern list"
  library :: "Pattern list"
  gridConfig :: GridConfig
  innerWidth :: int
  innerHeight :: int
  rand :: rng
  quilt :: "square list"
  libraryItems :: "style list"

definition initializeColors :: "session \<Rightarrow> session" where
  "initializeColors s =
     (let totalSquares = rows_st s * cols_st s;
          (ps, g) = createRandomPatterns (nat totalSquares) (rand s)
      in s\<lparr>patterns := ps, rand := g\<rparr>)"

definition updateOrientation :: "session \<Rightarrow> session" where
  "updateOrientation s =
     (let isPortrait = innerHeight s > innerWidth s;
          configIsWiderThanTall = cols (gridConfig s) > rows (gridConfig s)
      in if (isPortrait \<and> configIsWiderThanTall) \<or> (\<not> isPortrait \<and> \<not> configIsWiderThanTall)
         then s\<lparr>rows_st := cols (gridConfig s), cols_st := rows (gridConfig s)\<rparr>
         else s\<lparr>rows_st := rows (gridConfig s), cols_st := cols (gridConfig s)\<rparr>)"

text \<open>\<^verbatim>\<open>pattern.rotation || 0\<close>: a missing rotation counts as \<open>0\<close>.\<close>

definition rotation_or_0 :: "Pattern \<Rightarrow> int" where
  "rotation_or_0 pattern = (case rotation pattern of None \<Rightarrow> 0 | Some r \<Rightarrow> r)"

text \<open>
  \<^verbatim>\<open>applyPatternToElement\<close>, applied to what an array read returned: reading \<^verbatim>\<open>type\<close>
  of \<^verbatim>\<open>undefined\<close> raises.
\<close>

definition applyPatternToElement :: "Pattern option \<Rightarrow> error + square" where
  "applyPatternToElement v =
     (case v of
        None \<Rightarrow> Inl TypeError
      | Some pattern \<Rightarrow>
          (case getPatternStyle pattern of
             Inl e \<Rightarrow> Inl e
           | Inr patternStyle \<Rightarrow>
               Inr \<lparr>background = patternStyle, transform = rotation_or_0 pattern\<rparr>))"

text \<open>
  The index a display cell reads, as the body of the loop of \<^verbatim>\<open>renderQuilt\<close> computes
  it (and the drag, drop and export code after it).
\<close>

definition patternIndex :: "bool \<Rightarrow> GridConfig \<Rightarrow> int \<Rightarrow> int option" where
  "patternIndex isPortrait gc i =
     (if \<not> isPortrait then landscapeToPortrait gc i else Some i)"

definition readPattern :: "session \<Rightarrow> int option \<Rightarrow> Pattern option" where
  "readPattern s k = (case k of None \<Rightarrow> None | Some j \<Rightarrow> lookup (patterns s) j)"

text \<open>
  The loop of \<^verbatim>\<open>renderQuilt\<close> over the display indices \<open>0, \<dots>, rows * cols - 1\<close>; its
  body changes neither bound, so the indices are listed beforehand.
\<close>

fun renderSquares :: "bool \<Rightarrow> nat list \<Rightarrow> session \<Rightarrow> session \<times> error option" where
  "renderSquares isPortrait [] s = (s, None)"
| "renderSquares isPortrait (i # is) s =
     (case applyPatternToElement
             (readPattern s (patternIndex isPortrait (gridConfig s) (int i))) of
        Inl e \<Rightarrow> (s, Some e)
      | Inr sq \<Rightarrow> renderSquares isPortrait is (s\<lparr>quilt := quilt s @ [sq]\<rparr>))"

definition renderQuilt :: "session \<Rightarrow> session \<times> error option" where
  "renderQuilt s0 =
     (let s1 = updateOrientation (s0\<lparr>quilt := []\<rparr>);
          isPortrait = innerHeight s1 > innerWidth s1;
          expectedPatternCount = rows_st s1 * cols_st s1;
          s2 = (if int (length (patterns s1)) \<noteq> expectedPatternCount
                then initializeColors s1 else s1)
      in renderSquares isPortrait [0..<nat (rows_st s2 * cols_st s2)] s2)"

fun renderItems :: "Pattern list \<Rightarrow> session \<Rightarrow> session \<times> error option" where
  "renderItems [] s = (s, None)"
| "renderItems (pattern # ps) s =
     (case getPatternStyle pattern of
        Inl e \<Rightarrow> (s, Some e)
      | Inr patternStyle \<Rightarrow>
          renderItems ps (s\<lparr>libraryItems := libraryItems s @ [patternStyle]\<rparr>))"

definition renderLibrary :: "session \<Rightarrow> session \<times> error option" where
  "renderLibrary s = renderItems (library s) (s\<lparr>libraryItems := []\<rparr>)"

text \<open>
  \<^verbatim>\<open>rotatePattern\<close>: \<^verbatim>\<open>!patterns[index].rotation\<close> holds for a missing rotation and
  for \<open>0\<close>; reading \<^verbatim>\<open>rotation\<close> of a slot outside the array raises.
\<close>

definition rotatePattern :: "int \<Rightarrow> session \<Rightarrow> session \<times> error option" where
  "rotatePattern index s =
     (case lookup (patterns s) index of
        None \<Rightarrow> (s, Some TypeError)
      | Some p \<Rightarrow>
          let p1 = (if rotation p = None \<or> rotation p = Some 0
                    then p\<lparr>rotation := Some 0\<rparr> else p);
              p2 = p1\<lparr>rotation := Some (js_rem (rotation_or_0 p1 + 90) 360)\<rparr>
          in renderQuilt (s\<lparr>patterns := (patterns s)[nat index := p2]\<rparr>))"

section \<open>Saving and loading\<close>

text \<open>
  \<^verbatim>\<open>JSON.stringify\<close> and \<^verbatim>\<open>JSON.parse\<close> belong to the platform. The text of a file is
  represented by what \<^verbatim>\<open>JSON.parse\<close> makes of it: the snapshot it denotes, each field
  present or absent, or the message of the \<^verbatim>\<open>SyntaxError\<close> it raises. The text that
  \<^verbatim>\<open>JSON.stringify\<close> writes for a snapshot denotes that snapshot (a pattern without
  rotation is written without the key and read back without it). Snapshots whose
  fields hold values of other types than \<^verbatim>\<open>QuiltData\<close> declares are outside the model;
  an array or an object is always truthy, so a field of the declared type passes the
  \<^verbatim>\<open>if\<close> of \<^verbatim>\<open>loadQuilt\<close> exactly when it is present.
\<close>

record QuiltData =
  qd_patterns :: "Pattern list option"
  qd_library :: "Pattern list option"
  qd_gridConfig :: "GridConfig option"
  savedAt :: "string option"

datatype fileText = Json QuiltData | NotJson string

definition JSON_stringify :: "QuiltData \<Rightarrow> fileText" where
  "JSON_stringify quiltData = Json quiltData"

definition JSON_parse :: "fileText \<Rightarrow> error + QuiltData" where
  "JSON_parse t = (case t of Json quiltData \<Rightarrow> Inr quiltData | NotJson m \<Rightarrow> Inl (SyntaxError m))"

record download =
  filename :: string
  content :: fileText

text \<open>
  \<^verbatim>\<open>saveQuilt\<close>, given the results of \<^verbatim>\<open>new Date().toISOString()\<close> and \<^verbatim>\<open>Date.now()\<close>.
\<close>

definition saveQuilt :: "string \<Rightarrow> int \<Rightarrow> session \<Rightarrow> download" where
  "saveQuilt isoString now s =
     (let quiltData = \<lparr>qd_patterns = Some (patterns s), qd_library = Some (library s),
                       qd_gridConfig = Some (gridConfig s), savedAt = Some isoString\<rparr>;
          jsonString = JSON_stringify quiltData
      in \<lparr>filename = ''quilt-design-'' @ show_int now @ ''.json'', content = jsonString\<rparr>)"

text \<open>
  An alert is kept by its kind: \<open>Loaded\<close> is \<^verbatim>\<open>"Quilt loaded successfully!"\<close> and
  \<open>LoadError e\<close> is \<^verbatim>\<open>"Error loading quilt: "\<close> followed by the message of \<open>e\<close>.
\<close>

datatype alert = Loaded | LoadError error

text \<open>
  \<^verbatim>\<open>loadQuilt\<close> with the \<^verbatim>\<open>onload\<close> callback of its reader: \<open>None\<close> is an input without
  a file, \<open>Some t\<close> a file whose text \<open>t\<close> was read. The \<^verbatim>\<open>try\<close> block covers the three
  restore steps, so an exception of a render aborts the steps after it.
\<close>

definition loadQuilt :: "fileText option \<Rightarrow> session \<Rightarrow> session \<times> alert option" where
  "loadQuilt file s =
     (case file of
        None \<Rightarrow> (s, None)
      | Some t \<Rightarrow>
          (case JSON_parse t of
             Inl e \<Rightarrow> (s, Some (LoadError e))
           | Inr quiltData \<Rightarrow>
               (let (s1, r1) = (case qd_patterns quiltData of
                                  None \<Rightarrow> (s, None)
                                | Some ps \<Rightarrow> renderQuilt (s\<lparr>patterns := ps\<rparr>))
                in (case r1 of
                      Some e \<Rightarrow> (s1, Some (LoadError e))
                    | None \<Rightarrow>
                        (let (s2, r2) = (case qd_library quiltData of
                                           None \<Rightarrow> (s1, None)
                                         | Some l \<Rightarrow> renderLibrary (s1\<lparr>library := l\<rparr>))
                         in (case r2 of
                               Some e \<Rightarrow> (s2, Some (LoadError e))
                             | None \<Rightarrow>
                                 (let s3 = (case qd_gridConfig quiltData of
                                              None \<Rightarrow> s2
                                            | Some gc \<Rightarrow>
                                                s2\<lparr>gridConfig := gc, rows_st := rows gc,
                                                   cols_st := cols gc\<rparr>)
                                  in (s3, Some Loaded))))))))"

section \<open>The raster renderer\<close>

text \<open>
  The export draws on a canvas. The model records the calls on the 2D context in
  order. Coordinates are exact real numbers (rounding to floating point is left out);
  \<open>Rotate\<close> holds its angle in degrees, \<^verbatim>\<open>ctx.rotate\<close> being called with that angle times
  \<open>\<pi> / 180\<close>. \<open>FillStyle None\<close> is the assignment of \<^verbatim>\<open>undefined\<close> (a colour slot that
  the pattern does not have).
\<close>

datatype op =
    Save | Restore
  | Translate real real
  | Rotate real
  | FillStyle "string option"
  | FillRect real real real real
  | BeginPath | MoveTo real real | LineTo real real | ClosePath | Fill
  | Rect real real real real
  | Clip

text \<open>
  One filled triangle: \<^verbatim>\<open>fillStyle\<close>, \<^verbatim>\<open>beginPath\<close>, \<^verbatim>\<open>moveTo\<close>, two \<^verbatim>\<open>lineTo\<close>,
  \<^verbatim>\<open>closePath\<close>, \<^verbatim>\<open>fill\<close>, which the source writes out for every triangle.
\<close>

definition triangle ::
  "string option \<Rightarrow> real \<times> real \<Rightarrow> real \<times> real \<Rightarrow> real \<times> real \<Rightarrow> op list" where
  "triangle c p1 p2 p3 =
     [FillStyle c, BeginPath, MoveTo (fst p1) (snd p1), LineTo (fst p2) (snd p2),
      LineTo (fst p3) (snd p3), ClosePath, Fill]"

text \<open>
  The branch of \<^verbatim>\<open>exportQuiltAsPNG\<close> that draws one pattern, for a square of
  \<open>exportSquareSize\<close> pixels whose corner the context has been moved to.
\<close>

definition drawPattern :: "real \<Rightarrow> Pattern \<Rightarrow> op list" where
  "drawPattern exportSquareSize pattern =
     (if ptype pattern = Solid then
        [FillStyle (lookup (colors pattern) 0),
         FillRect 0 0 exportSquareSize exportSquareSize, Restore]
      else if ptype pattern = Horizontal then
        (let stripeHeight = exportSquareSize / 5
         in concat (map (\<lambda>j. [FillStyle (lookup (colors pattern) (int j)),
                                 FillRect 0 (real j * stripeHeight) exportSquareSize stripeHeight])
                        [0..<5]) @ [Restore])
      else if ptype pattern = Vertical then
        (let stripeWidth = exportSquareSize / 5
         in concat (map (\<lambda>j. [FillStyle (lookup (colors pattern) (int j)),
                                 FillRect (real j * stripeWidth) 0 stripeWidth exportSquareSize])
                        [0..<5]) @ [Restore])
      else if ptype pattern = Diagonal then
        (let diagonal = exportSquareSize * sqrt 2;
             stripeWidth = diagonal / 5
         in [BeginPath, Rect 0 0 exportSquareSize exportSquareSize, Clip,
             Translate (exportSquareSize / 2) (exportSquareSize / 2), Rotate (- 45)]
            @ concat (map (\<lambda>j. [FillStyle (lookup (colors pattern) (int j)),
                                   FillRect (- diagonal / 2 + real j * stripeWidth) (- diagonal / 2)
                                     stripeWidth diagonal])
                          [0..<5])
            @ [Restore])
      else if ptype pattern = Checkerboard then
        (let checkSize = exportSquareSize / 4
         in concat (map (\<lambda>row. concat (map (\<lambda>col.
                  let colorIndex = (row + col) mod 2
                  in [FillStyle (lookup (colors pattern) (int colorIndex)),
                      FillRect (real col * checkSize) (real row * checkSize) checkSize checkSize])
                [0..<4])) [0..<(4::nat)]) @ [Restore])
      else if ptype pattern = Quartersquare then
        (let cx = exportSquareSize / 2; cy = exportSquareSize / 2
         in triangle (lookup (colors pattern) 0) (0, 0) (exportSquareSize, 0) (cx, cy)
            @ triangle (lookup (colors pattern) 1)
                (exportSquareSize, 0) (exportSquareSize, exportSquareSize) (cx, cy)
            @ triangle (lookup (colors pattern) 2)
                (exportSquareSize, exportSquareSize) (0, exportSquareSize) (cx, cy)
            @ triangle (lookup (colors pattern) 3) (0, exportSquareSize) (0, 0) (cx, cy)
            @ [Restore])
      else if ptype pattern = Ninepatch then
        (let patchSize = exportSquareSize / 3
         in concat (map (\<lambda>row. concat (map (\<lambda>col.
                  let colorIndex =
                        (if length (colors pattern) = 0 then None
                         else Some (int ((row * 3 + col) mod length (colors pattern))))
                  in [FillStyle (case colorIndex of None \<Rightarrow> None
                                 | Some k \<Rightarrow> lookup (colors pattern) k),
                      FillRect (real col * patchSize) (real row * patchSize) patchSize patchSize])
                [0..<3])) [0..<(3::nat)]) @ [Restore])
      else if ptype pattern = Pinwheel then
        (let cx = exportSquareSize / 2; cy = exportSquareSize / 2
         in triangle (lookup (colors pattern) 0) (cx, cy) (0, 0) (cx, 0)
            @ triangle (lookup (colors pattern) 1) (cx, cy) (cx, 0) (exportSquareSize, 0)
            @ triangle (lookup (colors pattern) 0) (cx, cy) (exportSquareSize, 0) (exportSquareSize, cy)
            @ triangle (lookup (colors pattern) 1)
                (cx, cy) (exportSquareSize, cy) (exportSquareSize, exportSquareSize)
            @ triangle (lookup (colors pattern) 0)
                (cx, cy) (exportSquareSize, exportSquareSize) (cx, exportSquareSize)
            @ triangle (lookup (colors pattern) 1) (cx, cy) (cx, exportSquareSize) (0, exportSquareSize)
            @ triangle (lookup (colors pattern) 0) (cx, cy) (0, exportSquareSize) (0, cy)
            @ triangle (lookup (colors pattern) 1) (cx, cy) (0, cy) (0, 0)
            @ [Restore])
      else if ptype pattern = Flyinggeese then
        (let halfX = exportSquareSize / 2; halfY = exportSquareSize / 2
         in triangle (lookup (colors pattern) 0) (0, 0) (0, exportSquareSize) (halfX, halfY)
            @ triangle (lookup (colors pattern) 1)
                (halfX, 0) (halfX, exportSquareSize) (exportSquareSize, halfY)
            @ triangle (lookup (colors pattern) 2) (0, 0) (halfX, 0) (halfX, halfY)
            @ triangle (lookup (colors pattern) 2) (halfX, 0) (exportSquareSize, 0) (halfX, halfY)
            @ triangle (lookup (colors pattern) 2)
                (0, exportSquareSize) (halfX, exportSquareSize) (halfX, halfY)
            @ triangle (lookup (colors pattern) 2)
                (halfX, exportSquareSize) (exportSquareSize, exportSquareSize) (halfX, halfY)
            @ [Restore])
      else [])"

text \<open>
  One pass of the loop of \<^verbatim>\<open>exportQuiltAsPNG\<close>, for display index \<open>i\<close>: the cell's corner,
  the pattern read through the index mapping, the rotation about the cell's centre,
  the drawing. Reading \<^verbatim>\<open>rotation\<close> of a slot outside the array raises. Inside the loop
  \<open>numRows * numCols\<close> is positive, so \<open>numCols\<close> is not zero.
\<close>

definition exportCell :: "session \<Rightarrow> int \<Rightarrow> int \<Rightarrow> int \<Rightarrow> error + op list" where
  "exportCell s numCols exportSquareSize i =
     (let row = i div numCols;
          col = js_rem i numCols;
          x = col * exportSquareSize;
          y = row * exportSquareSize;
          currentIsPortrait = innerHeight s > innerWidth s
      in case readPattern s (patternIndex currentIsPortrait (gridConfig s) i) of
           None \<Rightarrow> Inl TypeError
         | Some pattern \<Rightarrow>
             let rotation = rotation_or_0 pattern
             in Inr ([Save]
                     @ (if rotation \<noteq> 0
                        then [Translate (real_of_int x + real_of_int exportSquareSize / 2)
                                (real_of_int y + real_of_int exportSquareSize / 2),
                              Rotate (real_of_int rotation),
                              Translate (- real_of_int exportSquareSize / 2)
                                (- real_of_int exportSquareSize / 2)]
                        else [Translate (real_of_int x) (real_of_int y)])
                     @ drawPattern (real_of_int exportSquareSize) pattern))"

fun exportCells :: "session \<Rightarrow> int \<Rightarrow> int \<Rightarrow> nat list \<Rightarrow> error + op list" where
  "exportCells s numCols exportSquareSize [] = Inr []"
| "exportCells s numCols exportSquareSize (i # is) =
     (case exportCell s numCols exportSquareSize (int i) of
        Inl e \<Rightarrow> Inl e
      | Inr ops \<Rightarrow>
          (case exportCells s numCols exportSquareSize is of
             Inl e \<Rightarrow> Inl e
           | Inr rest \<Rightarrow> Inr (ops @ rest)))"

record canvas =
  width :: int
  height :: int
  drawn :: "op list"

text \<open>
  \<^verbatim>\<open>exportQuiltAsPNG\<close>, given the result of \<^verbatim>\<open>Date.now()\<close> and whether \<^verbatim>\<open>canvas.toBlob\<close>
  hands a blob to its callback (the file is offered only then). The result is the
  canvas and the name of the offered file, or the exception raised while drawing.
\<close>

definition exportQuiltAsPNG ::
  "int \<Rightarrow> bool \<Rightarrow> session \<Rightarrow> error + canvas \<times> string option" where
  "exportQuiltAsPNG now blob s =
     (let numCols = cols_st s;
          numRows = rows_st s;
          exportSquareSize = 100
      in case exportCells s numCols exportSquareSize [0..<nat (numRows * numCols)] of
           Inl e \<Rightarrow> Inl e
         | Inr ops \<Rightarrow>
             Inr (\<lparr>width = numCols * exportSquareSize, height = numRows * exportSquareSize,
                   drawn = ops\<rparr>,
                  if blob then Some (''quilt-'' @ show_int now @ ''.png'') else None))"

section \<open>Well-formed patterns and example sessions\<close>

text \<open>
  The source never checks a pattern. The predicate below names the patterns whose
  colours are as many as their kind requires; it only states hypotheses.
\<close>

definition validPattern :: "Pattern \<Rightarrow> bool" where
  "validPattern p = (length (colors p) = numColors (ptype p))"

text \<open>
  The module as it starts (\<open>rows = 8\<close>, \<open>cols = 6\<close>, \<open>gridConfig = {rows: 6, cols: 8}\<close>, an
  empty library) in a window of the given width and height, with 48 solid patterns
  that carry their own index as colour, so that a displayed square tells which slot it
  was read from.
\<close>

definition numbered :: "nat \<Rightarrow> Pattern" where
  "numbered k = \<lparr>ptype = Solid, colors = [digits k], rotation = Some 0\<rparr>"

definition example_session :: "int \<Rightarrow> int \<Rightarrow> session" where
  "example_session w h =
     \<lparr>rows_st = 8, cols_st = 6, patterns = map numbered [0..<48], library = [],
      gridConfig = \<lparr>rows = 6, cols = 8\<rparr>, innerWidth = w, innerHeight = h,
      rand = (\<lambda>n. 0), quilt = [], libraryItems = []\<rparr>"

text \<open>
  The state in which the loop of \<^verbatim>\<open>renderQuilt\<close> starts: the view emptied, the
  orientation updated, the patterns regenerated where their number is not
  \<open>rows * cols\<close>. It is the first part of \<open>renderQuilt\<close>, named for the proofs.
\<close>

definition prepared :: "session \<Rightarrow> session" where
  "prepared s0 = (let s1 = updateOrientation (s0\<lparr>quilt := []\<rparr>) in
      if int (length (patterns s1)) \<noteq> rows_st s1 * cols_st s1 then initializeColors s1 else s1)"


text \<open>
  The example session after the grid settings dialog has set two rows and two columns
  and was closed without applying them: \<^verbatim>\<open>setRows\<close> and \<^verbatim>\<open>setColumns\<close> assign the fields
  of \<^verbatim>\<open>gridConfig\<close> and leave the 48 patterns in place.
\<close>

definition resized_session :: session where
  "resized_session = (example_session 400 800)\<lparr>gridConfig := \<lparr>rows = 2, cols = 2\<rparr>\<rparr>"

text \<open>
  A session of one cell whose pattern, as a loaded file may give it, has the rotation
  \<open>r\<close>.
\<close>

definition single_session :: "int option \<Rightarrow> session" where
  "single_session r =
     \<lparr>rows_st = 1, cols_st = 1,
      patterns = [\<lparr>ptype = Solid, colors = [''#ff6b9d''], rotation = r\<rparr>], library = [],
      gridConfig = \<lparr>rows = 1, cols = 1\<rparr>, innerWidth = 400, innerHeight = 800,
      rand = (\<lambda>n. 0), quilt = [], libraryItems = []\<rparr>"

text \<open>The pattern that \<^verbatim>\<open>rotatePattern\<close> leaves in the slot it was called for.\<close>

definition rotated :: "Pattern \<Rightarrow> Pattern" where
  "rotated p = p\<lparr>rotation := Some (js_rem (rotation_or_0 p + 90) 360)\<rparr>"

text \<open>
  A session of a 2 by 2 grid, and two snapshots as a file may hold them: one whose
  single pattern is a checkerboard without colours, and one that holds a library only.
\<close>

definition small_session :: session where
  "small_session =
     \<lparr>rows_st = 2, cols_st = 2, patterns = map numbered [0..<4], library = [],
      gridConfig = \<lparr>rows = 2, cols = 2\<rparr>, innerWidth = 400, innerHeight = 800,
      rand = (\<lambda>n. 0), quilt = [], libraryItems = []\<rparr>"



text \<open>
  The first two steps of the \<^verbatim>\<open>try\<close> block of \<^verbatim>\<open>loadQuilt\<close> (restore the patterns and
  render them, restore the library and render it), named for the proofs.
\<close>

definition restorePatterns :: "QuiltData \<Rightarrow> session \<Rightarrow> session \<times> error option" where
  "restorePatterns qd s = (case qd_patterns qd of None \<Rightarrow> (s, None)
                 | Some ps \<Rightarrow> renderQuilt (s\<lparr>patterns := ps\<rparr>))"

definition restoreLibrary :: "QuiltData \<Rightarrow> session \<Rightarrow> session \<times> error option" where
  "restoreLibrary qd s1 = (case qd_library qd of None \<Rightarrow> (s1, None)
                 | Some l \<Rightarrow> renderLibrary (s1\<lparr>library := l\<rparr>))"


text \<open>
  The example session with the grid configured the other way round, 8 rows by 6
  columns: taller than wide.
\<close>

definition tall_session :: "int \<Rightarrow> int \<Rightarrow> session" where
  "tall_session w h = (example_session w h)\<lparr>gridConfig := \<lparr>rows = 8, cols = 6\<rparr>\<rparr>"

section \<open>What the two renderers paint\<close>

text \<open>
  To compare the two renderers, both descriptions are read as lists of fills: a region,
  the frame it is given in, and a colour. A frame is the list of the coordinate
  changes in force (\<open>Shift\<close> for \<^verbatim>\<open>translate\<close>, \<open>Turn\<close> for \<^verbatim>\<open>rotate\<close>, in degrees), and a
  region is a box (corner, width, height) or a polygon (its vertices in order).
\<close>

datatype xf = Shift real real | Turn real

datatype region = Box real real real real | Polygon "(real \<times> real) list"

type_synonym fill = "xf list \<times> region \<times> string option"

text \<open>
  The drawing state of a 2D context, as far as the export uses it: the frame, the fill
  colour, the current path and the stack of \<^verbatim>\<open>save\<close>. Assigning \<^verbatim>\<open>undefined\<close> to
  \<^verbatim>\<open>fillStyle\<close> is ignored by the canvas. \<^verbatim>\<open>clip\<close> confines the drawing to the cell's own
  square, to which the style of an element is confined as well; it adds no fill.
\<close>

record ctx =
  frame :: "xf list"
  fillStyle :: "string option"
  path :: "(real \<times> real) list"
  saved :: "(xf list \<times> string option) list"

definition ctx0 :: ctx where
  "ctx0 = \<lparr>frame = [], fillStyle = None, path = [], saved = []\<rparr>"

fun canvasFills :: "op list \<Rightarrow> ctx \<Rightarrow> fill list" where
  "canvasFills [] c = []"
| "canvasFills (Save # ops) c = canvasFills ops (c\<lparr>saved := (frame c, fillStyle c) # saved c\<rparr>)"
| "canvasFills (Restore # ops) c =
     (case saved c of
        [] \<Rightarrow> canvasFills ops c
      | (f, k) # rest \<Rightarrow> canvasFills ops (c\<lparr>frame := f, fillStyle := k, saved := rest\<rparr>))"
| "canvasFills (Translate x y # ops) c = canvasFills ops (c\<lparr>frame := frame c @ [Shift x y]\<rparr>)"
| "canvasFills (Rotate d # ops) c = canvasFills ops (c\<lparr>frame := frame c @ [Turn d]\<rparr>)"
| "canvasFills (FillStyle v # ops) c =
     (case v of
        None \<Rightarrow> canvasFills ops c
      | Some k \<Rightarrow> canvasFills ops (c\<lparr>fillStyle := Some k\<rparr>))"
| "canvasFills (FillRect x y w h # ops) c =
     (frame c, Box x y w h, fillStyle c) # canvasFills ops c"
| "canvasFills (BeginPath # ops) c = canvasFills ops (c\<lparr>path := []\<rparr>)"
| "canvasFills (MoveTo x y # ops) c = canvasFills ops (c\<lparr>path := path c @ [(x, y)]\<rparr>)"
| "canvasFills (LineTo x y # ops) c = canvasFills ops (c\<lparr>path := path c @ [(x, y)]\<rparr>)"
| "canvasFills (ClosePath # ops) c = canvasFills ops c"
| "canvasFills (Fill # ops) c = (frame c, Polygon (path c), fillStyle c) # canvasFills ops c"
| "canvasFills (Rect x y w h # ops) c =
     canvasFills ops (c\<lparr>path := path c @ [(x, y), (x + w, y), (x + w, y + h), (x, y + h)]\<rparr>)"
| "canvasFills (Clip # ops) c = canvasFills ops c"

text \<open>
  The style read for a square of \<open>side\<close> pixels. An SVG image over the view box
  \<open>0 0 100 100\<close> is scaled by \<open>side / 100\<close>. A gradient whose stops come in pairs of one
  colour paints, for each pair, the band between the two positions along the gradient
  line; the line runs through the centre of the square, over the height for
  \<^verbatim>\<open>to bottom\<close>, over the width for \<^verbatim>\<open>to right\<close>, and over the diagonal (\<open>side\<close> times the
  square root of 2) towards the top right corner for \<^verbatim>\<open>45deg\<close>. The band of \<^verbatim>\<open>45deg\<close> is
  given in the frame whose first axis is the gradient line, which is the frame of
  \<^verbatim>\<open>translate(side / 2, side / 2)\<close> and \<^verbatim>\<open>rotate\<close> by \<open>- 45\<close> degrees.
\<close>

fun bands :: "(string \<times> real) list \<Rightarrow> (string \<times> real \<times> real) list" where
  "bands ((k, a) # (k', b) # stops) = (k, a, b) # bands stops"
| "bands stops = []"

definition gradientFill :: "real \<Rightarrow> direction \<Rightarrow> string \<times> real \<times> real \<Rightarrow> fill" where
  "gradientFill side d band =
     (case band of (k, a, b) \<Rightarrow>
        (case d of
           ToBottom \<Rightarrow> ([], Box 0 (a / 100 * side) side ((b - a) / 100 * side), Some k)
         | ToRight \<Rightarrow> ([], Box (a / 100 * side) 0 ((b - a) / 100 * side) side, Some k)
         | Deg45 \<Rightarrow>
             (let line = side * sqrt 2
              in ([Shift (side / 2) (side / 2), Turn (- 45)],
                  Box (- line / 2 + a / 100 * line) (- line / 2) ((b - a) / 100 * line) line,
                  Some k))))"

definition svgFill :: "real \<Rightarrow> svg \<Rightarrow> fill" where
  "svgFill side e =
     (case e of
        SvgRect x y w h k \<Rightarrow>
          ([], Box (x * side / 100) (y * side / 100) (w * side / 100) (h * side / 100), Some k)
      | SvgPolygon pts k \<Rightarrow>
          ([], Polygon (map (\<lambda>(x, y). (x * side / 100, y * side / 100)) pts), Some k))"

definition styleFills :: "real \<Rightarrow> style \<Rightarrow> fill list" where
  "styleFills side st =
     (case st of
        Color k \<Rightarrow> [([], Box 0 0 side side, k)]
      | LinearGradient d stops \<Rightarrow> map (gradientFill side d) (bands stops)
      | SvgImage es \<Rightarrow> map (svgFill side) es
      | NoStyle \<Rightarrow> [])"

text \<open>
  The colours of an SVG image are written with \<^verbatim>\<open>#\<close> escaped as \<^verbatim>\<open>%23\<close>; \<open>escaped\<close> writes
  the colours of a list of fills that way.
\<close>

definition escaped :: "fill list \<Rightarrow> fill list" where
  "escaped fs = map (\<lambda>(f, r, k). (f, r, map_option replace_hash k)) fs"

text \<open>Example patterns for the comparison of the two renderers.\<close>

definition flyinggeese_example :: Pattern where
  "flyinggeese_example =
     \<lparr>ptype = Flyinggeese, colors = [''#ff6b9d'', ''#667eea'', ''#f093fb''], rotation = Some 0\<rparr>"

definition checkerboard_example :: Pattern where
  "checkerboard_example =
     \<lparr>ptype = Checkerboard, colors = [''#ff0000'', ''#0000ff''], rotation = Some 0\<rparr>"
section \<open>Properties of the index transform\<close>

lemma js_rem_nonneg: "0 \<le> a \<Longrightarrow> 0 < b \<Longrightarrow> js_rem a b = a mod b"
  by (simp add: js_rem_def sgn_if)

text \<open>
  C3. With \<open>dCols = gridConfig.rows\<close>, \<open>dRows = gridConfig.cols\<close> and
  \<open>logicalCols = gridConfig.cols\<close>, \<^verbatim>\<open>landscapeToPortrait\<close> returns, for every display
  index \<open>i\<close>, the value \<open>logicalRow * logicalCols + logicalCol\<close> of the specified
  transform, where \<open>row = floor (i / dCols)\<close>, \<open>col = i % dCols\<close>, \<open>logicalRow = col\<close>
  and \<open>logicalCol = dRows - 1 - row\<close>.
\<close>

theorem landscapeToPortrait_is_spec_rotation:
  assumes "0 < rows gc" and "0 \<le> i"
  shows "landscapeToPortrait gc i = Some (spec_rotation_index (cols gc) (rows gc) (cols gc) i)"
  using assms
  by (simp add: landscapeToPortrait_def spec_rotation_index_def Let_def js_rem_nonneg)

theorem landscapeToPortrait_is_spec_rotation_witness:
  "landscapeToPortrait \<lparr>rows = 6, cols = 8\<rparr> 5 = Some 47
   \<and> spec_rotation_index 8 6 8 5 = 47"
  using landscapeToPortrait_is_spec_rotation [of "\<lparr>rows = 6, cols = 8\<rparr>" 5]
  by (simp add: spec_rotation_index_def Let_def)


subsection \<open>The transform permutes the cells\<close>

lemma landscapeToPortrait_value:
  assumes "1 \<le> rows gc" "1 \<le> cols gc" "0 \<le> i" "i < rows gc * cols gc"
  shows "landscapeToPortrait gc i = Some ((i mod rows gc) * cols gc + (cols gc - 1 - i div rows gc))"
  using assms by (simp add: landscapeToPortrait_def Let_def js_rem_nonneg)

lemma div_bounds:
  fixes i r c :: int
  assumes "0 < r" "0 \<le> i" "i < r * c"
  shows "0 \<le> i div r" "i div r < c"
proof -
  show "0 \<le> i div r" using assms by (simp add: pos_imp_zdiv_nonneg_iff)
  have le: "r * (i div r) \<le> i"
    using assms minus_mod_eq_mult_div[of i r] pos_mod_sign[of r i] by linarith
  show "i div r < c"
  proof (rule ccontr)
    assume "\<not> i div r < c"
    then have "c \<le> i div r" by simp
    then have "r * c \<le> r * (i div r)" using assms by (intro mult_left_mono) simp_all
    with le assms show False by linarith
  qed
qed

lemma landscapeToPortrait_range:
  assumes "1 \<le> rows gc" "1 \<le> cols gc" "0 \<le> i" "i < rows gc * cols gc"
  shows "\<exists>j. landscapeToPortrait gc i = Some j \<and> 0 \<le> j \<and> j < rows gc * cols gc"
proof -
  let ?r = "rows gc" and ?c = "cols gc"
  let ?a = "i mod ?r" and ?b = "?c - 1 - i div ?r"
  have a: "0 \<le> ?a" "?a < ?r" using assms by simp_all
  have b: "0 \<le> ?b" "?b < ?c" using div_bounds[of ?r i ?c] assms by simp_all
  have "?a * ?c + ?b < (?a + 1) * ?c" using b by (simp add: algebra_simps)
  also have "\<dots> \<le> ?r * ?c" using a assms by (intro mult_right_mono) linarith+
  finally have "?a * ?c + ?b < ?r * ?c" .
  moreover have "0 \<le> ?a * ?c + ?b" using a b assms by simp
  ultimately show ?thesis using landscapeToPortrait_value[OF assms] by simp
qed

lemma landscapeToPortrait_back:
  assumes "1 \<le> rows gc" "1 \<le> cols gc" "0 \<le> i" "i < rows gc * cols gc"
    and "landscapeToPortrait gc i = Some j"
  shows "i = (cols gc - 1 - j mod cols gc) * rows gc + j div cols gc"
proof -
  let ?r = "rows gc" and ?c = "cols gc"
  let ?a = "i mod ?r" and ?b = "?c - 1 - i div ?r"
  have a: "0 \<le> ?a" "?a < ?r" using assms by simp_all
  have b: "0 \<le> ?b" "?b < ?c" using div_bounds[of ?r i ?c] assms by simp_all
  have j: "j = ?a * ?c + ?b" using landscapeToPortrait_value[OF assms(1-4)] assms(5) by simp
  have d: "j div ?c = ?a" using b by (simp add: j)
  have "j mod ?c = ?b" using b by (simp add: j)
  then have m: "?c - 1 - j mod ?c = i div ?r" by simp
  show ?thesis unfolding d m by simp
qed

lemma landscapeToPortrait_inj:
  assumes "1 \<le> rows gc" "1 \<le> cols gc"
  shows "inj_on (landscapeToPortrait gc) {0..<rows gc * cols gc}"
proof (rule inj_onI)
  fix x y
  assume x: "x \<in> {0..<rows gc * cols gc}" and y: "y \<in> {0..<rows gc * cols gc}"
    and eq: "landscapeToPortrait gc x = landscapeToPortrait gc y"
  from x obtain j where j: "landscapeToPortrait gc x = Some j"
    using landscapeToPortrait_range[OF assms, of x] by auto
  have "x = (cols gc - 1 - j mod cols gc) * rows gc + j div cols gc"
    using landscapeToPortrait_back[OF assms _ _ j] x by simp
  moreover have "y = (cols gc - 1 - j mod cols gc) * rows gc + j div cols gc"
    using landscapeToPortrait_back[OF assms, of y j] y j eq by simp
  ultimately show "x = y" by simp
qed

lemma landscapeToPortrait_onto:
  assumes "1 \<le> rows gc" "1 \<le> cols gc"
  shows "bij_betw (landscapeToPortrait gc) {0..<rows gc * cols gc} (Some ` {0..<rows gc * cols gc})"
proof -
  let ?D = "{0..<rows gc * cols gc}"
  have sub: "landscapeToPortrait gc ` ?D \<subseteq> Some ` ?D"
    using landscapeToPortrait_range[OF assms] by force
  have "card (landscapeToPortrait gc ` ?D) = card ?D"
    using landscapeToPortrait_inj[OF assms] by (rule card_image)
  also have "\<dots> = card (Some ` ?D)" by (simp add: card_image)
  finally have "landscapeToPortrait gc ` ?D = Some ` ?D"
    using sub by (intro card_subset_eq) simp_all
  then show ?thesis using landscapeToPortrait_inj[OF assms] by (simp add: bij_betw_def)
qed


text \<open>
  C4. For every grid configuration with \<open>rows \<ge> 1\<close> and \<open>cols \<ge> 1\<close>,
  \<^verbatim>\<open>landscapeToPortrait\<close> is a bijection on \<open>{0, \<dots>, rows * cols - 1}\<close>: every output lies in
  that range, no two display indices map to the same logical index, and going back
  through the inverse returns the original display index. The inverse sends a logical
  index \<open>j\<close> to \<open>(cols - 1 - j mod cols) * rows + j div cols\<close>.
\<close>

theorem landscapeToPortrait_bijection:
  assumes "1 \<le> rows gc" and "1 \<le> cols gc"
  shows "(\<forall>i\<in>{0..<rows gc * cols gc}. \<exists>j\<in>{0..<rows gc * cols gc}.
            landscapeToPortrait gc i = Some j)
       \<and> inj_on (landscapeToPortrait gc) {0..<rows gc * cols gc}
       \<and> bij_betw (landscapeToPortrait gc) {0..<rows gc * cols gc}
             (Some ` {0..<rows gc * cols gc})
       \<and> (\<forall>i\<in>{0..<rows gc * cols gc}.
            the_inv_into {0..<rows gc * cols gc} (landscapeToPortrait gc)
              (landscapeToPortrait gc i) = i)
       \<and> (\<forall>i\<in>{0..<rows gc * cols gc}. \<forall>j. landscapeToPortrait gc i = Some j \<longrightarrow>
            (cols gc - 1 - j mod cols gc) * rows gc + j div cols gc = i)"
proof (intro conjI ballI allI impI)
  fix i assume "i \<in> {0..<rows gc * cols gc}"
  then show "\<exists>j\<in>{0..<rows gc * cols gc}. landscapeToPortrait gc i = Some j"
    using landscapeToPortrait_range[OF assms, of i] by auto
next
  show "inj_on (landscapeToPortrait gc) {0..<rows gc * cols gc}"
    by (rule landscapeToPortrait_inj[OF assms])
next
  show "bij_betw (landscapeToPortrait gc) {0..<rows gc * cols gc}
          (Some ` {0..<rows gc * cols gc})"
    by (rule landscapeToPortrait_onto[OF assms])
next
  fix i assume "i \<in> {0..<rows gc * cols gc}"
  then show "the_inv_into {0..<rows gc * cols gc} (landscapeToPortrait gc)
               (landscapeToPortrait gc i) = i"
    by (rule the_inv_into_f_f[OF landscapeToPortrait_inj[OF assms]])
next
  fix i j assume "i \<in> {0..<rows gc * cols gc}" and "landscapeToPortrait gc i = Some j"
  then show "(cols gc - 1 - j mod cols gc) * rows gc + j div cols gc = i"
    using landscapeToPortrait_back[OF assms, of i j] by simp
qed

theorem landscapeToPortrait_bijection_witness:
  "map (landscapeToPortrait \<lparr>rows = 2, cols = 3\<rparr>) [0, 1, 2, 3, 4, 5]
     = [Some 2, Some 5, Some 1, Some 4, Some 0, Some 3]
   \<and> inj_on (landscapeToPortrait \<lparr>rows = 2, cols = 3\<rparr>) {0..<6}
   \<and> the_inv_into {0..<6} (landscapeToPortrait \<lparr>rows = 2, cols = 3\<rparr>) (Some 0) = 4"
proof -
  let ?gc = "\<lparr>rows = 2, cols = 3\<rparr>"
  have v: "map (landscapeToPortrait ?gc) [0, 1, 2, 3, 4, 5]
             = [Some 2, Some 5, Some 1, Some 4, Some 0, Some 3]"
    by (simp add: landscapeToPortrait_def js_rem_def)
  have b: "inj_on (landscapeToPortrait ?gc) {0..<6}
           \<and> (\<forall>i\<in>{0..<6}. the_inv_into {0..<6} (landscapeToPortrait ?gc)
                  (landscapeToPortrait ?gc i) = i)"
    using landscapeToPortrait_bijection [of ?gc] by simp
  then have "the_inv_into {0..<6} (landscapeToPortrait ?gc) (landscapeToPortrait ?gc 4) = 4"
    by simp
  moreover have "landscapeToPortrait ?gc 4 = Some 0" using v by simp
  ultimately show ?thesis using v b by simp
qed

section \<open>Random patterns are valid\<close>

lemma length_getRandomColors: "length (fst (getRandomColors n g)) = n"
  by (induction n arbitrary: g) (simp_all add: split_beta)

lemma createRandomPattern_cases:
  "\<exists>t n. fst (createRandomPattern g) = \<lparr>ptype = t, colors = fst (getRandomColors n (snd (random g))), rotation = Some 0\<rparr>
     \<and> n = numColors t"
  by (cases "lookup types \<lfloor>fst (random g) * real (length types)\<rfloor>")
     (auto simp add: createRandomPattern_def split_beta numColors_def)

text \<open>
  C7. Every pattern returned by \<^verbatim>\<open>createRandomPattern\<close> is valid, whatever numbers the
  random generator yields: the length of its colours is the count its kind requires
  (solid 1, horizontal, vertical and diagonal 5, checkerboard 2, quartersquare 4,
  ninepatch 3, pinwheel 2, flyinggeese 3) and its rotation is 0.
\<close>

theorem createRandomPattern_valid:
  "length (colors (fst (createRandomPattern g))) = numColors (ptype (fst (createRandomPattern g)))
   \<and> rotation (fst (createRandomPattern g)) = Some 0
   \<and> map numColors [Solid, Horizontal, Vertical, Diagonal, Checkerboard, Quartersquare,
                     Ninepatch, Pinwheel, Flyinggeese] = [1, 5, 5, 5, 2, 4, 3, 2, 3]"
proof -
  obtain t n where "fst (createRandomPattern g) =
      \<lparr>ptype = t, colors = fst (getRandomColors n (snd (random g))), rotation = Some 0\<rparr>"
    and "n = numColors t"
    using createRandomPattern_cases by blast
  then show ?thesis by (simp add: length_getRandomColors numColors_def)
qed


theorem createRandomPattern_valid_witness:
  "ptype (fst (createRandomPattern (\<lambda>n. 1/2))) = Checkerboard
   \<and> length (colors (fst (createRandomPattern (\<lambda>n. 1/2)))) = 2
   \<and> rotation (fst (createRandomPattern (\<lambda>n. 1/2))) = Some 0"
proof -
  have k: "ptype (fst (createRandomPattern (\<lambda>n. 1/2))) = Checkerboard"
    by (simp add: createRandomPattern_def random_def types_def lookup_def split_beta)
  show ?thesis
    using createRandomPattern_valid [of "\<lambda>n. 1/2"] by (simp add: k numColors_def)
qed


section \<open>What the interactive view shows\<close>

lemma readPattern_quilt [simp]: "readPattern (s\<lparr>quilt := q\<rparr>) k = readPattern s k"
  by (simp add: readPattern_def split: option.splits)

lemma renderSquares_frame: "\<exists>q. fst (renderSquares b is s) = s\<lparr>quilt := q\<rparr>"
proof (induction "is" arbitrary: s)
  case Nil
  have "s = s\<lparr>quilt := quilt s\<rparr>" by simp
  then show ?case by (metis fst_conv renderSquares.simps(1))
next
  case (Cons i "is")
  show ?case
  proof (cases "applyPatternToElement (readPattern s (patternIndex b (gridConfig s) (int i)))")
    case (Inl e)
    have "s = s\<lparr>quilt := quilt s\<rparr>" by simp
    with Inl show ?thesis by (metis fst_conv renderSquares.simps(2) sum.simps(5))
  next
    case (Inr sq)
    obtain q where "fst (renderSquares b is (s\<lparr>quilt := quilt s @ [sq]\<rparr>)) = s\<lparr>quilt := quilt s @ [sq]\<rparr>\<lparr>quilt := q\<rparr>"
      using Cons.IH by blast
    with Inr show ?thesis by (intro exI[of _ q]) simp
  qed
qed

lemma renderSquares_None:
  "renderSquares b is s = (s', None) \<Longrightarrow>
   \<exists>sqs. s' = s\<lparr>quilt := quilt s @ sqs\<rparr>
     \<and> map Inr sqs = map (\<lambda>i. applyPatternToElement (readPattern s (patternIndex b (gridConfig s) (int i)))) is"
proof (induction "is" arbitrary: s)
  case Nil
  then show ?case by simp
next
  case (Cons i "is")
  show ?case
  proof (cases "applyPatternToElement (readPattern s (patternIndex b (gridConfig s) (int i)))")
    case (Inl e)
    with Cons.prems show ?thesis by simp
  next
    case (Inr sq)
    with Cons.prems have "renderSquares b is (s\<lparr>quilt := quilt s @ [sq]\<rparr>) = (s', None)" by simp
    from Cons.IH[OF this] obtain sqs where
      1: "s' = s\<lparr>quilt := quilt s @ [sq]\<rparr>\<lparr>quilt := quilt (s\<lparr>quilt := quilt s @ [sq]\<rparr>) @ sqs\<rparr>"
      and 2: "map Inr sqs = map (\<lambda>i. applyPatternToElement (readPattern s (patternIndex b (gridConfig s) (int i)))) is"
      by auto
    show ?thesis
      by (rule exI[of _ "sq # sqs"]) (simp add: 1 2 Inr)
  qed
qed

lemma renderSquares_complete:
  assumes "\<forall>i\<in>set is. \<exists>sq. applyPatternToElement (readPattern s (patternIndex b (gridConfig s) (int i))) = Inr sq"
  shows "snd (renderSquares b is s) = None"
  using assms
proof (induction "is" arbitrary: s)
  case Nil
  then show ?case by simp
next
  case (Cons i "is")
  then obtain sq where sq: "applyPatternToElement (readPattern s (patternIndex b (gridConfig s) (int i))) = Inr sq"
    by auto
  have "snd (renderSquares b is (s\<lparr>quilt := quilt s @ [sq]\<rparr>)) = None"
    using Cons.prems by (intro Cons.IH) simp
  then show ?case by (simp add: sq)
qed



lemma updateOrientation_product:
  "rows_st (updateOrientation s) * cols_st (updateOrientation s) = rows (gridConfig s) * cols (gridConfig s)"
  by (simp add: updateOrientation_def Let_def)

lemma updateOrientation_frame:
  "patterns (updateOrientation s) = patterns s" "library (updateOrientation s) = library s"
  "gridConfig (updateOrientation s) = gridConfig s" "innerWidth (updateOrientation s) = innerWidth s"
  "innerHeight (updateOrientation s) = innerHeight s" "rand (updateOrientation s) = rand s"
  "quilt (updateOrientation s) = quilt s" "libraryItems (updateOrientation s) = libraryItems s"
  by (simp_all add: updateOrientation_def Let_def)

lemma initializeColors_frame:
  "rows_st (initializeColors s) = rows_st s" "cols_st (initializeColors s) = cols_st s"
  "library (initializeColors s) = library s"
  "gridConfig (initializeColors s) = gridConfig s" "innerWidth (initializeColors s) = innerWidth s"
  "innerHeight (initializeColors s) = innerHeight s"
  "quilt (initializeColors s) = quilt s" "libraryItems (initializeColors s) = libraryItems s"
  "patterns (initializeColors s) = fst (createRandomPatterns (nat (rows_st s * cols_st s)) (rand s))"
  by (simp_all add: initializeColors_def Let_def split_beta)

lemma renderQuilt_prepared:
  "renderQuilt s = renderSquares (innerHeight s > innerWidth s)
      [0..<nat (rows (gridConfig s) * cols (gridConfig s))] (prepared s)"
  by (simp add: renderQuilt_def prepared_def Let_def updateOrientation_frame
      initializeColors_frame updateOrientation_product)

lemma prepared_frame:
  "rows_st (prepared s) = rows_st (updateOrientation s)"
  "cols_st (prepared s) = cols_st (updateOrientation s)"
  "library (prepared s) = library s" "gridConfig (prepared s) = gridConfig s"
  "innerWidth (prepared s) = innerWidth s" "innerHeight (prepared s) = innerHeight s"
  "quilt (prepared s) = []" "libraryItems (prepared s) = libraryItems s"
  by (simp_all add: prepared_def Let_def updateOrientation_frame initializeColors_frame,
      simp_all add: updateOrientation_def Let_def)

lemma prepared_patterns:
  "patterns (prepared s) =
     (if int (length (patterns s)) \<noteq> rows (gridConfig s) * cols (gridConfig s)
      then fst (createRandomPatterns (nat (rows (gridConfig s) * cols (gridConfig s))) (rand s))
      else patterns s)"
  by (simp add: prepared_def Let_def updateOrientation_frame initializeColors_frame
      updateOrientation_product)


lemma renderQuilt_state: "\<exists>q. fst (renderQuilt s) = (prepared s)\<lparr>quilt := q\<rparr>"
  unfolding renderQuilt_prepared by (rule renderSquares_frame)

lemma renderQuilt_frame:
  "rows_st (fst (renderQuilt s)) = rows_st (updateOrientation s)"
  "cols_st (fst (renderQuilt s)) = cols_st (updateOrientation s)"
  "library (fst (renderQuilt s)) = library s"
  "gridConfig (fst (renderQuilt s)) = gridConfig s"
  "innerWidth (fst (renderQuilt s)) = innerWidth s"
  "innerHeight (fst (renderQuilt s)) = innerHeight s"
  "libraryItems (fst (renderQuilt s)) = libraryItems s"
  "patterns (fst (renderQuilt s)) = patterns (prepared s)"
  using renderQuilt_state[of s] by (auto simp add: prepared_frame)

lemma renderQuilt_cells:
  assumes "snd (renderQuilt s) = None"
  shows "map Inr (quilt (fst (renderQuilt s))) =
     map (\<lambda>i. applyPatternToElement (readPattern (prepared s)
            (patternIndex (innerHeight s > innerWidth s) (gridConfig s) (int i))))
         [0..<nat (rows (gridConfig s) * cols (gridConfig s))]"
proof -
  have "renderSquares (innerHeight s > innerWidth s)
      [0..<nat (rows (gridConfig s) * cols (gridConfig s))] (prepared s) = (fst (renderQuilt s), None)"
    using assms by (simp add: renderQuilt_prepared[symmetric] prod_eq_iff)
  from renderSquares_None[OF this] show ?thesis by (auto simp add: prepared_frame)
qed

lemma validPattern_style: "validPattern p \<Longrightarrow> \<exists>st. getPatternStyle p = Inr st"
  by (cases "ptype p") (auto simp add: validPattern_def numColors_def getPatternStyle_def lookup_def Let_def)

lemma randomPattern_wellformed: "validPattern (fst (createRandomPattern g))"
  using createRandomPattern_cases[of g] by (auto simp add: validPattern_def length_getRandomColors)

lemma createRandomPatterns_valid:
  "length (fst (createRandomPatterns n g)) = n \<and> (\<forall>p\<in>set (fst (createRandomPatterns n g)). validPattern p)"
  by (induction n arbitrary: g) (auto simp add: split_beta randomPattern_wellformed)

lemma prepared_length:
  "length (patterns (prepared s)) = nat (rows (gridConfig s) * cols (gridConfig s))
   \<or> (patterns (prepared s) = patterns s \<and> int (length (patterns s)) = rows (gridConfig s) * cols (gridConfig s))"
  by (simp add: prepared_patterns createRandomPatterns_valid)

lemma prepared_length': "length (patterns (prepared s)) = nat (rows (gridConfig s) * cols (gridConfig s))"
  using prepared_length[of s] by auto

lemma prepared_valid:
  assumes "int (length (patterns s)) = rows (gridConfig s) * cols (gridConfig s) \<longrightarrow> (\<forall>p\<in>set (patterns s). validPattern p)"
  shows "\<forall>p\<in>set (patterns (prepared s)). validPattern p"
  using assms by (simp add: prepared_patterns createRandomPatterns_valid)

lemma renderQuilt_portrait_completes:
  assumes "innerHeight s > innerWidth s"
    and "int (length (patterns s)) = rows (gridConfig s) * cols (gridConfig s) \<longrightarrow> (\<forall>p\<in>set (patterns s). validPattern p)"
  shows "snd (renderQuilt s) = None"
  unfolding renderQuilt_prepared
proof (rule renderSquares_complete, rule ballI)
  fix i assume "i \<in> set [0..<nat (rows (gridConfig s) * cols (gridConfig s))]"
  then have i: "i < length (patterns (prepared s))" by (simp add: prepared_length')
  then have "validPattern (patterns (prepared s) ! i)"
    using prepared_valid[OF assms(2)] by simp
  then obtain st where "getPatternStyle (patterns (prepared s) ! i) = Inr st"
    using validPattern_style by blast
  then show "\<exists>sq. applyPatternToElement (readPattern (prepared s)
      (patternIndex (innerWidth s < innerHeight s) (gridConfig (prepared s)) (int i))) = Inr sq"
    using i assms(1) by (simp add: patternIndex_def readPattern_def lookup_def applyPatternToElement_def)
qed


lemma numbered_valid: "validPattern (numbered k)"
  by (simp add: numbered_def validPattern_def numColors_def)

lemma example_valid: "\<forall>p\<in>set (patterns (example_session w h)). validPattern p"
  by (auto simp add: example_session_def numbered_valid simp del: upt_Suc)

lemma example_fields:
  "gridConfig (example_session w h) = \<lparr>rows = 6, cols = 8\<rparr>"
  "innerWidth (example_session w h) = w" "innerHeight (example_session w h) = h"
  "length (patterns (example_session w h)) = 48"
  by (simp_all add: example_session_def)

lemma example_nth: "k < 48 \<Longrightarrow> patterns (example_session w h) ! k = numbered k"
  by (simp add: example_session_def del: upt_Suc)

lemma renderQuilt_cell_reads:
  assumes "snd (renderQuilt s) = None"
  shows "length (quilt (fst (renderQuilt s))) = nat (rows (gridConfig s) * cols (gridConfig s))"
    and "i < nat (rows (gridConfig s) * cols (gridConfig s)) \<Longrightarrow>
         applyPatternToElement (readPattern (fst (renderQuilt s))
            (patternIndex (innerHeight s > innerWidth s) (gridConfig s) (int i)))
          = Inr (quilt (fst (renderQuilt s)) ! i)"
proof -
  let ?n = "nat (rows (gridConfig s) * cols (gridConfig s))"
  let ?f = "\<lambda>i. applyPatternToElement (readPattern (prepared s)
            (patternIndex (innerHeight s > innerWidth s) (gridConfig s) (int i)))"
  have m: "map Inr (quilt (fst (renderQuilt s))) = map ?f [0..<?n]"
    by (rule renderQuilt_cells[OF assms])
  show len: "length (quilt (fst (renderQuilt s))) = ?n"
    using arg_cong[OF m, of length] by simp
  assume i: "i < ?n"
  have "Inr (quilt (fst (renderQuilt s)) ! i) = ?f i"
    using arg_cong[OF m, of "\<lambda>xs. xs ! i"] i len by simp
  moreover have "readPattern (fst (renderQuilt s)) k = readPattern (prepared s) k" for k
    by (simp add: readPattern_def renderQuilt_frame split: option.splits)
  ultimately show "applyPatternToElement (readPattern (fst (renderQuilt s))
            (patternIndex (innerHeight s > innerWidth s) (gridConfig s) (int i)))
          = Inr (quilt (fst (renderQuilt s)) ! i)" by simp
qed


lemma renderQuilt_completes:
  assumes "int (length (patterns s)) = rows (gridConfig s) * cols (gridConfig s)
           \<longrightarrow> (\<forall>p\<in>set (patterns s). validPattern p)"
    and "innerHeight s > innerWidth s \<or> (1 \<le> rows (gridConfig s) \<and> 1 \<le> cols (gridConfig s))"
  shows "snd (renderQuilt s) = None"
proof (cases "innerHeight s > innerWidth s")
  case True
  then show ?thesis using assms(1) by (intro renderQuilt_portrait_completes)
next
  case False
  with assms(2) have gc: "1 \<le> rows (gridConfig s)" "1 \<le> cols (gridConfig s)" by auto
  show ?thesis unfolding renderQuilt_prepared
  proof (rule renderSquares_complete, rule ballI)
    fix i assume "i \<in> set [0..<nat (rows (gridConfig s) * cols (gridConfig s))]"
    then have "0 \<le> int i" "int i < rows (gridConfig s) * cols (gridConfig s)" by auto
    from landscapeToPortrait_range[OF gc this] obtain j where
      j: "landscapeToPortrait (gridConfig s) (int i) = Some j" "0 \<le> j"
         "j < rows (gridConfig s) * cols (gridConfig s)" by auto
    then have jl: "nat j < length (patterns (prepared s))" by (simp add: prepared_length')
    then have "validPattern (patterns (prepared s) ! nat j)"
      using prepared_valid[OF assms(1)] by simp
    then obtain st where "getPatternStyle (patterns (prepared s) ! nat j) = Inr st"
      using validPattern_style by blast
    then show "\<exists>sq. applyPatternToElement (readPattern (prepared s)
        (patternIndex (innerWidth s < innerHeight s) (gridConfig (prepared s)) (int i))) = Inr sq"
      using j jl False
      by (simp add: patternIndex_def readPattern_def lookup_def applyPatternToElement_def
          prepared_frame prepared_length')
  qed
qed

lemma applyPatternToElement_numbered:
  "applyPatternToElement (Some (numbered k))
     = Inr \<lparr>background = Color (Some (digits k)), transform = 0\<rparr>"
  by (simp add: applyPatternToElement_def numbered_def getPatternStyle_def lookup_def
      rotation_or_0_def)

lemma example_completes: "snd (renderQuilt (example_session w h)) = None"
  using example_valid[of w h] by (intro renderQuilt_completes) (simp_all add: example_fields)

lemma example_patterns_kept:
  "patterns (fst (renderQuilt (example_session w h))) = patterns (example_session w h)"
  by (simp add: renderQuilt_frame prepared_patterns example_fields)

lemma example_lookup:
  "k < 48 \<Longrightarrow> lookup (patterns (fst (renderQuilt (example_session w h)))) (int k)
     = Some (numbered k)"
  by (simp add: example_patterns_kept lookup_def example_fields example_nth)

subsection \<open>A grid configured wider than tall\<close>

lemma example_portrait_cell0:
  "quilt (fst (renderQuilt (example_session 400 800))) ! 0
     = \<lparr>background = Color (Some ''0''), transform = 0\<rparr>"
proof -
  have "applyPatternToElement (readPattern (fst (renderQuilt (example_session 400 800)))
          (patternIndex (innerHeight (example_session 400 800) > innerWidth (example_session 400 800))
             (gridConfig (example_session 400 800)) (int 0)))
        = Inr (quilt (fst (renderQuilt (example_session 400 800))) ! 0)"
    by (rule renderQuilt_cell_reads(2)[OF example_completes]) (simp add: example_fields)
  then show ?thesis
    using example_lookup[of 0 400 800]
    by (simp add: example_fields patternIndex_def readPattern_def
        applyPatternToElement_numbered digits.simps)
qed

lemma example_landscape_cell0:
  "quilt (fst (renderQuilt (example_session 1200 800))) ! 0
     = \<lparr>background = Color (Some ''7''), transform = 0\<rparr>"
proof -
  have "applyPatternToElement (readPattern (fst (renderQuilt (example_session 1200 800)))
          (patternIndex (innerHeight (example_session 1200 800) > innerWidth (example_session 1200 800))
             (gridConfig (example_session 1200 800)) (int 0)))
        = Inr (quilt (fst (renderQuilt (example_session 1200 800))) ! 0)"
    by (rule renderQuilt_cell_reads(2)[OF example_completes]) (simp add: example_fields)
  then show ?thesis
    using example_lookup[of 7 1200 800]
    by (simp add: example_fields patternIndex_def readPattern_def landscapeToPortrait_def
        js_rem_def applyPatternToElement_numbered digits.simps)
qed

lemma tall_session_fields:
  "gridConfig (tall_session w h) = \<lparr>rows = 8, cols = 6\<rparr>"
  "innerWidth (tall_session w h) = w" "innerHeight (tall_session w h) = h"
  "patterns (tall_session w h) = patterns (example_session w h)"
  by (simp_all add: tall_session_def example_session_def)

text \<open>
  For a grid configured taller than wide the code does rotate. With
  \<open>gridConfig = {rows: 8, cols: 6}\<close> the landscape window is the one whose display is
  transposed (6 rows by 8 columns), and there the first square shows slot 5, which is
  logical cell (row 0, column 5) as the specified transform has it; the portrait
  window shows the array as it is.
\<close>

lemma tall_grid_landscape_rotates:
  "rows_st (fst (renderQuilt (tall_session 1200 800))) = 6
   \<and> cols_st (fst (renderQuilt (tall_session 1200 800))) = 8
   \<and> snd (renderQuilt (tall_session 1200 800)) = None
   \<and> Inr (quilt (fst (renderQuilt (tall_session 1200 800))) ! 0)
       = applyPatternToElement (Some (numbered 5))
   \<and> spec_rotation_index 6 8 6 0 = 5
   \<and> Inr (quilt (fst (renderQuilt (tall_session 400 800))) ! 0)
       = applyPatternToElement (Some (numbered 0))"
proof -
  have v: "\<forall>p\<in>set (patterns (tall_session w h)). validPattern p" for w h
    using example_valid[of w h] by (simp add: tall_session_fields)
  have ok: "snd (renderQuilt (tall_session w h)) = None" for w h
    using v[of w h] by (intro renderQuilt_completes) (simp_all add: tall_session_fields)
  have kept: "patterns (fst (renderQuilt (tall_session w h))) = patterns (example_session w h)"
    for w h
    by (simp add: renderQuilt_frame prepared_patterns tall_session_fields example_fields)
  have l: "applyPatternToElement (readPattern (fst (renderQuilt (tall_session 1200 800)))
          (patternIndex (innerHeight (tall_session 1200 800) > innerWidth (tall_session 1200 800))
             (gridConfig (tall_session 1200 800)) (int 0)))
        = Inr (quilt (fst (renderQuilt (tall_session 1200 800))) ! 0)"
    by (rule renderQuilt_cell_reads(2)[OF ok]) (simp add: tall_session_fields)
  have p: "applyPatternToElement (readPattern (fst (renderQuilt (tall_session 400 800)))
          (patternIndex (innerHeight (tall_session 400 800) > innerWidth (tall_session 400 800))
             (gridConfig (tall_session 400 800)) (int 0)))
        = Inr (quilt (fst (renderQuilt (tall_session 400 800))) ! 0)"
    by (rule renderQuilt_cell_reads(2)[OF ok]) (simp add: tall_session_fields)
  have l5: "Inr (quilt (fst (renderQuilt (tall_session 1200 800))) ! 0)
       = applyPatternToElement (Some (numbered 5))"
    using l example_nth[of 5 1200 800]
    by (simp add: tall_session_fields patternIndex_def readPattern_def landscapeToPortrait_def
        js_rem_def lookup_def kept example_fields)
  have p0: "Inr (quilt (fst (renderQuilt (tall_session 400 800))) ! 0)
       = applyPatternToElement (Some (numbered 0))"
    using p example_nth[of 0 400 800]
    by (simp add: tall_session_fields patternIndex_def readPattern_def lookup_def kept
        example_fields)
  have o: "rows_st (fst (renderQuilt (tall_session 1200 800))) = 6"
    "cols_st (fst (renderQuilt (tall_session 1200 800))) = 8"
    by (simp_all add: renderQuilt_frame updateOrientation_def tall_session_fields)
  show ?thesis using o ok l5 p0 by (simp add: spec_rotation_index_def)
qed

text \<open>
  C1. For a grid configured as \<open>{rows: 6, cols: 8}\<close> on a portrait window the display
  should be 8 rows by 6 columns with display cell (0,0) reading logical cell (row 0,
  column 7), index 7, as the specified transform gives for display index 0. The code
  sets 8 rows and 6 columns and shows 48 squares, but the first square is the pattern
  of slot 0, not that of slot 7: \<^verbatim>\<open>renderQuilt\<close> applies \<^verbatim>\<open>landscapeToPortrait\<close> under
  \<^verbatim>\<open>if (!isPortrait)\<close>, so on the portrait window, the one whose display
  \<^verbatim>\<open>updateOrientation\<close> transposes for this grid, no index is transformed.
\<close>

theorem renderQuilt_portrait_wide_grid_reads_slot_0:
  "innerHeight (example_session 400 800) > innerWidth (example_session 400 800)
   \<and> gridConfig (example_session 400 800) = \<lparr>rows = 6, cols = 8\<rparr>
   \<and> snd (renderQuilt (example_session 400 800)) = None
   \<and> rows_st (fst (renderQuilt (example_session 400 800))) = 8
   \<and> cols_st (fst (renderQuilt (example_session 400 800))) = 6
   \<and> length (quilt (fst (renderQuilt (example_session 400 800)))) = 48
   \<and> spec_rotation_index 8 6 8 0 = 7
   \<and> Inr (quilt (fst (renderQuilt (example_session 400 800))) ! 0)
       = applyPatternToElement (lookup (patterns (fst (renderQuilt (example_session 400 800)))) 0)
   \<and> Inr (quilt (fst (renderQuilt (example_session 400 800))) ! 0)
       \<noteq> applyPatternToElement (lookup (patterns (fst (renderQuilt (example_session 400 800)))) 7)"
proof -
  have o: "rows_st (fst (renderQuilt (example_session 400 800))) = 8"
    "cols_st (fst (renderQuilt (example_session 400 800))) = 6"
    by (simp_all add: renderQuilt_frame updateOrientation_def example_fields)
  have n: "length (quilt (fst (renderQuilt (example_session 400 800)))) = 48"
    using renderQuilt_cell_reads(1)[OF example_completes, of 400 800]
    by (simp add: example_fields)
  show ?thesis
    using example_lookup[of 0 400 800] example_lookup[of 7 400 800] o n
    by (simp add: example_fields example_completes example_portrait_cell0
        applyPatternToElement_numbered digits.simps spec_rotation_index_def)
qed

text \<open>
  C2. Where the configured aspect matches the window (here \<open>configuredCols >
  configuredRows\<close> on a landscape window) the display is not transposed and display
  index and logical index should be the same. The code applies
  \<^verbatim>\<open>landscapeToPortrait\<close> on every landscape window: with
  \<open>gridConfig = {rows: 6, cols: 8}\<close> on a window 1200 wide and 800 high the display has
  6 rows and 8 columns as configured, yet the first square shows slot 7, and the
  indices of the first display row, split by 6 columns where the display has 8, are
  7, 15, 23, 31, 39, 47, 6, 14.
\<close>

theorem renderQuilt_landscape_wide_grid_not_identity:
  "cols (gridConfig (example_session 1200 800)) > rows (gridConfig (example_session 1200 800))
   \<and> \<not> innerHeight (example_session 1200 800) > innerWidth (example_session 1200 800)
   \<and> snd (renderQuilt (example_session 1200 800)) = None
   \<and> rows_st (fst (renderQuilt (example_session 1200 800))) = 6
   \<and> cols_st (fst (renderQuilt (example_session 1200 800))) = 8
   \<and> Inr (quilt (fst (renderQuilt (example_session 1200 800))) ! 0)
       \<noteq> applyPatternToElement (lookup (patterns (fst (renderQuilt (example_session 1200 800)))) 0)
   \<and> Inr (quilt (fst (renderQuilt (example_session 1200 800))) ! 0)
       = applyPatternToElement (lookup (patterns (fst (renderQuilt (example_session 1200 800)))) 7)
   \<and> map (patternIndex False (gridConfig (example_session 1200 800))) [0, 1, 2, 3, 4, 5, 6, 7]
       = [Some 7, Some 15, Some 23, Some 31, Some 39, Some 47, Some 6, Some 14]"
proof -
  have o: "rows_st (fst (renderQuilt (example_session 1200 800))) = 6"
    "cols_st (fst (renderQuilt (example_session 1200 800))) = 8"
    by (simp_all add: renderQuilt_frame updateOrientation_def example_fields)
  have m: "map (patternIndex False (gridConfig (example_session 1200 800)))
             [0, 1, 2, 3, 4, 5, 6, 7]
       = [Some 7, Some 15, Some 23, Some 31, Some 39, Some 47, Some 6, Some 14]"
    by (simp add: example_fields patternIndex_def landscapeToPortrait_def js_rem_def)
  show ?thesis
    using example_lookup[of 0 1200 800] example_lookup[of 7 1200 800] o m
    by (simp add: example_fields example_completes example_landscape_cell0
        applyPatternToElement_numbered digits.simps)
qed

section \<open>Rotating a pattern\<close>

lemma rotatePattern_eq:
  assumes "0 \<le> i" "i < int (length (patterns s))"
  shows "rotatePattern i s = renderQuilt (s\<lparr>patterns := (patterns s)[nat i := rotated (patterns s ! nat i)]\<rparr>)"
proof -
  have l: "lookup (patterns s) i = Some (patterns s ! nat i)" using assms by (simp add: lookup_def)
  have "(if rotation p = None \<or> rotation p = Some 0 then p\<lparr>rotation := Some 0\<rparr> else p)
          \<lparr>rotation := Some (js_rem (rotation_or_0
              (if rotation p = None \<or> rotation p = Some 0 then p\<lparr>rotation := Some 0\<rparr> else p) + 90) 360)\<rparr>
        = rotated p" for p
    by (auto simp add: rotated_def rotation_or_0_def)
  then show ?thesis by (simp add: rotatePattern_def l Let_def)
qed

lemma rotatePattern_patterns:
  assumes "0 \<le> i" "i < int (length (patterns s))"
    and "int (length (patterns s)) = rows (gridConfig s) * cols (gridConfig s)"
  shows "patterns (fst (rotatePattern i s)) = (patterns s)[nat i := rotated (patterns s ! nat i)]"
    and "gridConfig (fst (rotatePattern i s)) = gridConfig s"
    and "library (fst (rotatePattern i s)) = library s"
  using assms(3) by (simp_all add: rotatePattern_eq[OF assms(1,2)] renderQuilt_frame prepared_patterns)

lemma step90:
  fixes x :: int
  assumes "0 \<le> x" "x < 360"
  shows "(x + 90) mod 360 = (if x < 270 then x + 90 else x - 270)"
proof (cases "x < 270")
  case True
  then show ?thesis using assms by simp
next
  case False
  have e: "x + 90 = (x - 270) + 360" by simp
  have "(x + 90) mod 360 = (x - 270) mod 360" unfolding e by (rule mod_add_self2)
  also have "\<dots> = x - 270" using False assms by simp
  finally show ?thesis using False by simp
qed

lemma js_rem_step:
  assumes "0 \<le> x" "x < 360"
  shows "js_rem (x + 90) 360 = (if x < 270 then x + 90 else x - 270)"
  using assms step90[OF assms] by (simp add: js_rem_nonneg)

lemma rotation_or_0_rotated: "rotation_or_0 (rotated q) = js_rem (rotation_or_0 q + 90) 360"
  by (simp add: rotated_def rotation_or_0_def)

lemma rotated_4:
  assumes "0 \<le> rotation_or_0 p" "rotation_or_0 p < 360"
  shows "rotation_or_0 (rotated (rotated (rotated (rotated p)))) = rotation_or_0 p"
proof -
  let ?x = "rotation_or_0 p"
  have 1: "rotation_or_0 (rotated p) = (if ?x < 270 then ?x + 90 else ?x - 270)"
    using js_rem_step[OF assms] by (simp add: rotation_or_0_rotated)
  have b1: "0 \<le> rotation_or_0 (rotated p)" "rotation_or_0 (rotated p) < 360"
    using assms by (simp_all add: 1)
  have 2: "rotation_or_0 (rotated (rotated p)) = (if ?x < 180 then ?x + 180 else ?x - 180)"
    using js_rem_step[OF b1] assms by (simp add: rotation_or_0_rotated[of "rotated p"] 1)
  have b2: "0 \<le> rotation_or_0 (rotated (rotated p))" "rotation_or_0 (rotated (rotated p)) < 360"
    using assms by (simp_all add: 2)
  have 3: "rotation_or_0 (rotated (rotated (rotated p))) = (if ?x < 90 then ?x + 270 else ?x - 90)"
    using js_rem_step[OF b2] assms by (simp add: rotation_or_0_rotated[of "rotated (rotated p)"] 2)
  have b3: "0 \<le> rotation_or_0 (rotated (rotated (rotated p)))"
    "rotation_or_0 (rotated (rotated (rotated p))) < 360"
    using assms by (simp_all add: 3)
  show ?thesis
    using js_rem_step[OF b3] assms
    by (simp add: rotation_or_0_rotated[of "rotated (rotated (rotated p))"] 3)
qed

lemma rotation_rotated: "rotation (rotated p) = Some (rotation_or_0 (rotated p))"
  by (simp add: rotated_def rotation_or_0_def)


lemma rotatePattern_4:
  assumes "0 \<le> i" "i < int (length (patterns s))"
    and "int (length (patterns s)) = rows (gridConfig s) * cols (gridConfig s)"
  shows "patterns (fst (rotatePattern i (fst (rotatePattern i (fst (rotatePattern i
            (fst (rotatePattern i s)))))))) =
         (patterns s)[nat i := rotated (rotated (rotated (rotated (patterns s ! nat i))))]"
proof -
  let ?s1 = "fst (rotatePattern i s)"
  let ?s2 = "fst (rotatePattern i ?s1)"
  let ?s3 = "fst (rotatePattern i ?s2)"
  have n: "nat i < length (patterns s)" using assms by simp
  note r1 = rotatePattern_patterns[OF assms]
  have h1: "i < int (length (patterns ?s1))"
    "int (length (patterns ?s1)) = rows (gridConfig ?s1) * cols (gridConfig ?s1)"
    using assms by (simp_all add: r1)
  note r2 = rotatePattern_patterns[OF assms(1) h1]
  have h2: "i < int (length (patterns ?s2))"
    "int (length (patterns ?s2)) = rows (gridConfig ?s2) * cols (gridConfig ?s2)"
    using assms by (simp_all add: r2 r1)
  note r3 = rotatePattern_patterns[OF assms(1) h2]
  have h3: "i < int (length (patterns ?s3))"
    "int (length (patterns ?s3)) = rows (gridConfig ?s3) * cols (gridConfig ?s3)"
    using assms by (simp_all add: r3 r2 r1)
  note r4 = rotatePattern_patterns[OF assms(1) h3]
  show ?thesis using n by (simp add: r4 r3 r2 r1)
qed

lemma single_session_fields:
  "patterns (single_session r) = [\<lparr>ptype = Solid, colors = [''#ff6b9d''], rotation = r\<rparr>]"
  "gridConfig (single_session r) = \<lparr>rows = 1, cols = 1\<rparr>"
  by (simp_all add: single_session_def)

lemma resized_session_fields:
  "length (patterns resized_session) = 48"
  "gridConfig resized_session = \<lparr>rows = 2, cols = 2\<rparr>"
  "rand resized_session = (\<lambda>n. 0)"
  by (simp_all add: resized_session_def example_session_def)

text \<open>
  C10 as stated fails. Where the patterns are not as many as the configured grid has
  cells (here 48 patterns under a 2 by 2 configuration), the render at the end of
  \<^verbatim>\<open>rotatePattern\<close> replaces the whole array by fresh random patterns: 4 patterns are
  left and the other entries are not kept. And a rotation outside \<open>0 \<dots> 359\<close> is not
  restored by four calls: 360 becomes 0.
\<close>

theorem rotatePattern_counterexample:
  "(1::int) < int (length (patterns resized_session))
   \<and> length (patterns resized_session) = 48
   \<and> length (patterns (fst (rotatePattern 1 resized_session))) = 4
   \<and> rotation (patterns (single_session (Some 360)) ! 0) = Some 360
   \<and> rotation (patterns (fst (rotatePattern 0 (fst (rotatePattern 0 (fst (rotatePattern 0 (fst (rotatePattern 0 (single_session (Some 360)))))))))) ! 0) = Some 0"
proof -
  have i: "(0::int) \<le> 1" "(1::int) < int (length (patterns resized_session))"
    by (simp_all add: resized_session_fields)
  have a: "length (patterns (fst (rotatePattern 1 resized_session))) = 4"
    by (simp add: rotatePattern_eq[OF i] renderQuilt_frame prepared_patterns
        resized_session_fields createRandomPatterns_valid)
  have j: "(0::int) \<le> 0" "(0::int) < int (length (patterns (single_session (Some 360))))"
    "int (length (patterns (single_session (Some 360))))
       = rows (gridConfig (single_session (Some 360))) * cols (gridConfig (single_session (Some 360)))"
    by (simp_all add: single_session_fields)
  have b: "rotation (patterns (fst (rotatePattern 0 (fst (rotatePattern 0 (fst (rotatePattern 0 (fst (rotatePattern 0 (single_session (Some 360)))))))))) ! 0) = Some 0"
    by (simp add: rotatePattern_4[OF j] single_session_fields rotated_def rotation_or_0_def
        js_rem_def)
  show ?thesis using a b by (simp add: resized_session_fields single_session_fields)
qed

text \<open>
  C10, amended. For every index \<open>i\<close> with \<open>0 \<le> i < patterns.length\<close>, when the patterns are
  as many as the configured grid has cells, \<^verbatim>\<open>rotatePattern(i)\<close> sets the rotation of slot \<open>i\<close>
  to \<open>(r + 90) % 360\<close>, where \<open>r\<close> is the prior rotation (0 when undefined) and \<open>%\<close> is
  the remainder of the language (the mathematical \<open>mod\<close> for \<open>r \<ge> - 90\<close>), and changes nothing
  else: the kind and colours of slot \<open>i\<close>, every other entry, the library and the grid
  configuration are unchanged. Four successive calls restore the rotation of slot \<open>i\<close>
  when \<open>0 \<le> r < 360\<close>, and a rotation in \<open>{0, 90, 180, 270}\<close> stays in that set.
\<close>

theorem rotatePattern_rotates_one_slot:
  assumes "0 \<le> i" and "i < int (length (patterns s))"
    and "int (length (patterns s)) = rows (gridConfig s) * cols (gridConfig s)"
  shows "patterns (fst (rotatePattern i s)) =
           (patterns s)[nat i := (patterns s ! nat i)
              \<lparr>rotation := Some (js_rem (rotation_or_0 (patterns s ! nat i) + 90) 360)\<rparr>]
    \<and> length (patterns (fst (rotatePattern i s))) = length (patterns s)
    \<and> ptype (patterns (fst (rotatePattern i s)) ! nat i) = ptype (patterns s ! nat i)
    \<and> colors (patterns (fst (rotatePattern i s)) ! nat i) = colors (patterns s ! nat i)
    \<and> (\<forall>j<length (patterns s). j \<noteq> nat i \<longrightarrow>
          patterns (fst (rotatePattern i s)) ! j = patterns s ! j)
    \<and> library (fst (rotatePattern i s)) = library s
    \<and> gridConfig (fst (rotatePattern i s)) = gridConfig s
    \<and> (- 90 \<le> rotation_or_0 (patterns s ! nat i) \<longrightarrow>
          js_rem (rotation_or_0 (patterns s ! nat i) + 90) 360
            = (rotation_or_0 (patterns s ! nat i) + 90) mod 360)
    \<and> (0 \<le> rotation_or_0 (patterns s ! nat i) \<and> rotation_or_0 (patterns s ! nat i) < 360 \<longrightarrow>
          rotation (patterns (fst (rotatePattern i (fst (rotatePattern i (fst (rotatePattern i
            (fst (rotatePattern i s)))))))) ! nat i)
            = Some (rotation_or_0 (patterns s ! nat i)))
    \<and> (rotation_or_0 (patterns s ! nat i) \<in> {0, 90, 180, 270} \<longrightarrow>
          rotation (patterns (fst (rotatePattern i s)) ! nat i)
            \<in> {Some 0, Some 90, Some 180, Some 270})"
proof -
  have n: "nat i < length (patterns s)" using assms by simp
  note r = rotatePattern_patterns[OF assms]
  have a: "patterns (fst (rotatePattern i s)) =
           (patterns s)[nat i := (patterns s ! nat i)
              \<lparr>rotation := Some (js_rem (rotation_or_0 (patterns s ! nat i) + 90) 360)\<rparr>]"
    by (simp add: r rotated_def)
  have b: "- 90 \<le> rotation_or_0 (patterns s ! nat i) \<longrightarrow>
          js_rem (rotation_or_0 (patterns s ! nat i) + 90) 360
            = (rotation_or_0 (patterns s ! nat i) + 90) mod 360"
    by (simp add: js_rem_nonneg)
  have c: "0 \<le> rotation_or_0 (patterns s ! nat i) \<and> rotation_or_0 (patterns s ! nat i) < 360 \<longrightarrow>
          rotation (patterns (fst (rotatePattern i (fst (rotatePattern i (fst (rotatePattern i
            (fst (rotatePattern i s)))))))) ! nat i)
            = Some (rotation_or_0 (patterns s ! nat i))"
    using n by (simp add: rotatePattern_4[OF assms] rotation_rotated rotated_4)
  have d: "rotation_or_0 (patterns s ! nat i) \<in> {0, 90, 180, 270} \<longrightarrow>
          rotation (patterns (fst (rotatePattern i s)) ! nat i)
            \<in> {Some 0, Some 90, Some 180, Some 270}"
    using n by (auto simp add: a js_rem_def)
  show ?thesis using n a b c d by (simp add: r(2,3))
qed


theorem rotatePattern_rotates_one_slot_witness:
  "length (patterns (example_session 400 800)) = 48
   \<and> length (patterns (fst (rotatePattern 5 (example_session 400 800)))) = 48
   \<and> patterns (fst (rotatePattern 5 (example_session 400 800))) ! 5
       = \<lparr>ptype = Solid, colors = [''5''], rotation = Some 90\<rparr>
   \<and> patterns (fst (rotatePattern 5 (example_session 400 800))) ! 4 = numbered 4
   \<and> patterns (fst (rotatePattern 5 (example_session 400 800))) ! 47 = numbered 47
   \<and> rotation (patterns (fst (rotatePattern 5 (fst (rotatePattern 5 (fst (rotatePattern 5 (fst (rotatePattern 5 (example_session 400 800))))))))) ! 5) = Some 0"
proof -
  let ?s = "example_session 400 800"
  have h: "(0::int) \<le> 5" "(5::int) < int (length (patterns ?s))"
    "int (length (patterns ?s)) = rows (gridConfig ?s) * cols (gridConfig ?s)"
    by (simp_all add: example_fields)
  note t = rotatePattern_rotates_one_slot [OF h]
  have n5: "patterns ?s ! 5 = numbered 5" by (rule example_nth) simp
  have r5: "rotation_or_0 (patterns ?s ! nat 5) = 0"
    by (simp add: n5 numbered_def rotation_or_0_def)
  have len: "length (patterns (fst (rotatePattern 5 ?s))) = 48"
    using t by (simp add: example_fields)
  have upd: "patterns (fst (rotatePattern 5 ?s)) =
           (patterns ?s)[nat 5 := (patterns ?s ! nat 5)
              \<lparr>rotation := Some (js_rem (rotation_or_0 (patterns ?s ! nat 5) + 90) 360)\<rparr>]"
    using t by blast
  have c5: "patterns (fst (rotatePattern 5 ?s)) ! 5
       = \<lparr>ptype = Solid, colors = [''5''], rotation = Some 90\<rparr>"
    by (simp add: upd example_fields n5 numbered_def js_rem_def rotation_or_0_def digits.simps)
  have others: "\<forall>j<length (patterns ?s). j \<noteq> nat 5 \<longrightarrow>
          patterns (fst (rotatePattern 5 ?s)) ! j = patterns ?s ! j"
    using t by blast
  have c4: "patterns (fst (rotatePattern 5 ?s)) ! 4 = numbered 4"
    using others[rule_format, of 4] example_nth[of 4 400 800] by (simp add: example_fields)
  have c47: "patterns (fst (rotatePattern 5 ?s)) ! 47 = numbered 47"
    using others[rule_format, of 47] example_nth[of 47 400 800] by (simp add: example_fields)
  have four: "rotation (patterns (fst (rotatePattern 5 (fst (rotatePattern 5 (fst (rotatePattern 5 (fst (rotatePattern 5 (example_session 400 800))))))))) ! nat 5) = Some (rotation_or_0 (patterns ?s ! nat 5))"
    using t r5 by simp
  show ?thesis using len c5 c4 c47 four r5 by (simp add: example_fields)
qed

section \<open>Loading a saved quilt\<close>

lemma renderItems_frame: "\<exists>l. fst (renderItems ps s) = s\<lparr>libraryItems := l\<rparr>"
proof (induction ps arbitrary: s)
  case Nil
  have "s = s\<lparr>libraryItems := libraryItems s\<rparr>" by simp
  then show ?case by (metis fst_conv renderItems.simps(1))
next
  case (Cons p ps)
  show ?case
  proof (cases "getPatternStyle p")
    case (Inl e)
    have "s = s\<lparr>libraryItems := libraryItems s\<rparr>" by simp
    with Inl show ?thesis by (metis fst_conv renderItems.simps(2) sum.simps(5))
  next
    case (Inr st)
    obtain l where "fst (renderItems ps (s\<lparr>libraryItems := libraryItems s @ [st]\<rparr>))
        = s\<lparr>libraryItems := libraryItems s @ [st]\<rparr>\<lparr>libraryItems := l\<rparr>"
      using Cons.IH by blast
    with Inr show ?thesis by (intro exI[of _ l]) simp
  qed
qed

lemma renderItems_complete:
  "\<forall>p\<in>set ps. validPattern p \<Longrightarrow> snd (renderItems ps s) = None"
proof (induction ps arbitrary: s)
  case Nil
  then show ?case by simp
next
  case (Cons p ps)
  from Cons.prems have "validPattern p" by simp
  then obtain st where "getPatternStyle p = Inr st" using validPattern_style by blast
  then show ?case using Cons by simp
qed

lemma renderLibrary_frame:
  "rows_st (fst (renderLibrary s)) = rows_st s" "cols_st (fst (renderLibrary s)) = cols_st s"
  "patterns (fst (renderLibrary s)) = patterns s" "library (fst (renderLibrary s)) = library s"
  "gridConfig (fst (renderLibrary s)) = gridConfig s"
  using renderItems_frame[of "library s" "s\<lparr>libraryItems := []\<rparr>"]
  by (auto simp add: renderLibrary_def)

lemma renderLibrary_complete:
  "\<forall>p\<in>set (library s). validPattern p \<Longrightarrow> snd (renderLibrary s) = None"
  by (simp add: renderLibrary_def renderItems_complete)

lemma loadQuilt_steps:
  "loadQuilt (Some (Json qd)) s =
     (case snd (restorePatterns qd s) of
        Some e \<Rightarrow> (fst (restorePatterns qd s), Some (LoadError e))
      | None \<Rightarrow>
         (case snd (restoreLibrary qd (fst (restorePatterns qd s))) of
            Some e \<Rightarrow> (fst (restoreLibrary qd (fst (restorePatterns qd s))), Some (LoadError e))
          | None \<Rightarrow>
             ((case qd_gridConfig qd of None \<Rightarrow> fst (restoreLibrary qd (fst (restorePatterns qd s)))
               | Some gc \<Rightarrow> (fst (restoreLibrary qd (fst (restorePatterns qd s))))
                    \<lparr>gridConfig := gc, rows_st := rows gc, cols_st := cols gc\<rparr>),
              Some Loaded)))"
  by (simp add: loadQuilt_def JSON_parse_def restorePatterns_def restoreLibrary_def split_beta Let_def
      split: option.splits)

lemma restorePatterns_frame:
  "library (fst (restorePatterns qd s)) = library s" "gridConfig (fst (restorePatterns qd s)) = gridConfig s"
  "qd_patterns qd = None \<Longrightarrow> patterns (fst (restorePatterns qd s)) = patterns s"
  "qd_patterns qd = Some ps \<Longrightarrow> int (length ps) = rows (gridConfig s) * cols (gridConfig s)
     \<Longrightarrow> patterns (fst (restorePatterns qd s)) = ps"
  by (auto simp add: restorePatterns_def renderQuilt_frame prepared_patterns split: option.splits)

lemma restoreLibrary_frame:
  "patterns (fst (restoreLibrary qd s)) = patterns s" "gridConfig (fst (restoreLibrary qd s)) = gridConfig s"
  "qd_library qd = None \<Longrightarrow> library (fst (restoreLibrary qd s)) = library s"
  "qd_library qd = Some l \<Longrightarrow> library (fst (restoreLibrary qd s)) = l"
  by (auto simp add: restoreLibrary_def renderLibrary_frame split: option.splits)

lemma loadQuilt_patterns:
  "patterns (fst (loadQuilt (Some (Json qd)) s)) = patterns (fst (restorePatterns qd s))"
  by (simp add: loadQuilt_steps restoreLibrary_frame split: option.splits)



lemma loadQuilt_loaded:
  assumes "snd (loadQuilt (Some (Json qd)) s) = Some Loaded"
  shows "qd_library qd = Some l \<Longrightarrow> library (fst (loadQuilt (Some (Json qd)) s)) = l"
    and "qd_gridConfig qd = Some gc \<Longrightarrow> gridConfig (fst (loadQuilt (Some (Json qd)) s)) = gc
          \<and> rows_st (fst (loadQuilt (Some (Json qd)) s)) = rows gc
          \<and> cols_st (fst (loadQuilt (Some (Json qd)) s)) = cols gc"
  using assms
  by (auto simp add: loadQuilt_steps restoreLibrary_frame restorePatterns_frame split: option.splits)


lemma loadQuilt_succeeds:
  assumes "\<forall>ps. qd_patterns qd = Some ps \<longrightarrow>
             (int (length ps) = rows (gridConfig s) * cols (gridConfig s)
                \<longrightarrow> (\<forall>p\<in>set ps. validPattern p))
           \<and> (innerHeight s > innerWidth s
                \<or> (1 \<le> rows (gridConfig s) \<and> 1 \<le> cols (gridConfig s)))"
    and "\<forall>l. qd_library qd = Some l \<longrightarrow> (\<forall>p\<in>set l. validPattern p)"
  shows "snd (loadQuilt (Some (Json qd)) s) = Some Loaded"
proof -
  have 1: "snd (restorePatterns qd s) = None"
  proof (cases "qd_patterns qd")
    case None
    then show ?thesis by (simp add: restorePatterns_def)
  next
    case (Some ps)
    have "snd (renderQuilt (s\<lparr>patterns := ps\<rparr>)) = None"
      using assms(1) Some by (intro renderQuilt_completes) auto
    then show ?thesis by (simp add: restorePatterns_def Some)
  qed
  have 2: "snd (restoreLibrary qd s1) = None" for s1
  proof (cases "qd_library qd")
    case None
    then show ?thesis by (simp add: restoreLibrary_def)
  next
    case (Some l)
    have "snd (renderLibrary (s1\<lparr>library := l\<rparr>)) = None"
      using assms(2) Some by (intro renderLibrary_complete) simp
    then show ?thesis by (simp add: restoreLibrary_def Some)
  qed
  show ?thesis by (simp add: loadQuilt_steps 1 2)
qed

lemma saveQuilt_content:
  "content (saveQuilt isoString now s) =
     Json \<lparr>qd_patterns = Some (patterns s), qd_library = Some (library s),
           qd_gridConfig = Some (gridConfig s), savedAt = Some isoString\<rparr>"
  by (simp add: saveQuilt_def JSON_stringify_def)

text \<open>
  Where the patterns of the file are as many as the grid in memory has cells, and
  nothing raises, loading what \<^verbatim>\<open>saveQuilt\<close> wrote gives back the three saved values.
\<close>

lemma loadQuilt_saveQuilt_same_cells:
  assumes "int (length (patterns s)) = rows (gridConfig s') * cols (gridConfig s')"
    and "snd (loadQuilt (Some (content (saveQuilt isoString now s))) s') = Some Loaded"
  shows "patterns (fst (loadQuilt (Some (content (saveQuilt isoString now s))) s')) = patterns s
       \<and> library (fst (loadQuilt (Some (content (saveQuilt isoString now s))) s')) = library s
       \<and> gridConfig (fst (loadQuilt (Some (content (saveQuilt isoString now s))) s'))
           = gridConfig s"
  using assms loadQuilt_loaded[of "\<lparr>qd_patterns = Some (patterns s), qd_library = Some (library s),
           qd_gridConfig = Some (gridConfig s), savedAt = Some isoString\<rparr>" s']
  by (simp add: saveQuilt_content loadQuilt_patterns restorePatterns_frame)

lemma small_session_fields:
  "gridConfig small_session = \<lparr>rows = 2, cols = 2\<rparr>"
  "innerWidth small_session = 400" "innerHeight small_session = 800"
  "library small_session = []" "length (patterns small_session) = 4"
  by (simp_all add: small_session_def)

lemma example_library: "library (example_session w h) = []"
  by (simp add: example_session_def)

text \<open>
  C5. Serialising a snapshot with \<^verbatim>\<open>saveQuilt\<close> and loading it with \<^verbatim>\<open>loadQuilt\<close> should
  give back the patterns, the library and the grid configuration, whatever grid is in
  memory when the file is loaded. The code does not: \<^verbatim>\<open>loadQuilt\<close> renders the loaded
  patterns before it restores \<^verbatim>\<open>gridConfig\<close>, and \<^verbatim>\<open>renderQuilt\<close> replaces an array whose
  length is not the cell count of the grid still in memory. The 48 patterns saved from
  the 6 by 8 example session, loaded into a session of a 2 by 2 grid, come out as 4
  random patterns, with the success alert; library and grid configuration are restored.
\<close>

theorem loadQuilt_loses_patterns_of_other_grid:
  "snd (loadQuilt (Some (content (saveQuilt ''2024-05-01T12:00:00.000Z'' 1714564800000
          (example_session 400 800)))) small_session) = Some Loaded
   \<and> length (patterns (example_session 400 800)) = 48
   \<and> length (patterns (fst (loadQuilt (Some (content (saveQuilt ''2024-05-01T12:00:00.000Z''
          1714564800000 (example_session 400 800)))) small_session))) = 4
   \<and> patterns (fst (loadQuilt (Some (content (saveQuilt ''2024-05-01T12:00:00.000Z''
          1714564800000 (example_session 400 800)))) small_session))
       \<noteq> patterns (example_session 400 800)
   \<and> library (fst (loadQuilt (Some (content (saveQuilt ''2024-05-01T12:00:00.000Z''
          1714564800000 (example_session 400 800)))) small_session))
       = library (example_session 400 800)
   \<and> gridConfig (fst (loadQuilt (Some (content (saveQuilt ''2024-05-01T12:00:00.000Z''
          1714564800000 (example_session 400 800)))) small_session))
       = gridConfig (example_session 400 800)"
proof -
  let ?qd = "\<lparr>qd_patterns = Some (patterns (example_session 400 800)),
              qd_library = Some (library (example_session 400 800)),
              qd_gridConfig = Some (gridConfig (example_session 400 800)),
              savedAt = Some ''2024-05-01T12:00:00.000Z''\<rparr>"
  have ok: "snd (loadQuilt (Some (Json ?qd)) small_session) = Some Loaded"
    by (rule loadQuilt_succeeds)
       (simp_all add: small_session_fields example_fields example_library)
  have len: "length (patterns (fst (loadQuilt (Some (Json ?qd)) small_session))) = 4"
    by (simp add: loadQuilt_patterns restorePatterns_def renderQuilt_frame prepared_patterns
        small_session_fields example_fields createRandomPatterns_valid)
  then have ne: "patterns (fst (loadQuilt (Some (Json ?qd)) small_session))
       \<noteq> patterns (example_session 400 800)"
    using example_fields(4)[of 400 800] by auto
  show ?thesis
    using ok len ne loadQuilt_loaded[OF ok]
    by (simp add: saveQuilt_content example_fields)
qed






subsection \<open>A render that raises aborts the load\<close>















section \<open>The exported image\<close>

lemma exportCell_reads:
  "readPattern s (patternIndex (innerHeight s > innerWidth s) (gridConfig s) i) = Some p
   \<Longrightarrow> \<exists>ops. exportCell s numCols sz i = Inr ops"
  by (simp add: exportCell_def Let_def)

lemma exportCells_complete:
  "\<forall>i\<in>set is. \<exists>ops. exportCell s numCols sz (int i) = Inr ops
   \<Longrightarrow> \<exists>ops. exportCells s numCols sz is = Inr ops"
proof (induction "is")
  case Nil
  then show ?case by simp
next
  case (Cons i "is")
  then obtain ops rest where "exportCell s numCols sz (int i) = Inr ops"
    and "exportCells s numCols sz is = Inr rest" by auto
  then show ?case by simp
qed

lemma exportQuiltAsPNG_result:
  "exportQuiltAsPNG now blob s = Inr (cv, dl) \<Longrightarrow>
     width cv = cols_st s * 100 \<and> height cv = rows_st s * 100
     \<and> dl = (if blob then Some (''quilt-'' @ show_int now @ ''.png'') else None)"
  by (auto simp add: exportQuiltAsPNG_def Let_def split: sum.splits)

lemma exportQuiltAsPNG_after_render:
  assumes "innerHeight s0 > innerWidth s0
           \<or> (1 \<le> rows (gridConfig s0) \<and> 1 \<le> cols (gridConfig s0))"
  shows "\<exists>cv dl. exportQuiltAsPNG now blob (fst (renderQuilt s0)) = Inr (cv, dl)"
proof -
  let ?s = "fst (renderQuilt s0)"
  let ?n = "nat (rows (gridConfig s0) * cols (gridConfig s0))"
  have len: "length (patterns ?s) = ?n" by (simp add: renderQuilt_frame prepared_length')
  have prod: "rows_st ?s * cols_st ?s = rows (gridConfig s0) * cols (gridConfig s0)"
    by (simp add: renderQuilt_frame updateOrientation_product)
  have "\<exists>ops. exportCell ?s (cols_st ?s) 100 (int i) = Inr ops" if i: "i < ?n" for i
  proof (cases "innerHeight s0 > innerWidth s0")
    case True
    have "int i < rows (gridConfig s0) * cols (gridConfig s0)" using i by auto
    then have "readPattern ?s (patternIndex (innerHeight ?s > innerWidth ?s) (gridConfig ?s) (int i))
                 = Some (patterns ?s ! i)"
      using True i len by (simp add: renderQuilt_frame patternIndex_def readPattern_def lookup_def)
    then show ?thesis by (rule exportCell_reads)
  next
    case False
    with assms have gc: "1 \<le> rows (gridConfig s0)" "1 \<le> cols (gridConfig s0)" by auto
    have "0 \<le> int i" "int i < rows (gridConfig s0) * cols (gridConfig s0)" using i by auto
    from landscapeToPortrait_range[OF gc this] obtain j where
      j: "landscapeToPortrait (gridConfig s0) (int i) = Some j" "0 \<le> j"
         "j < rows (gridConfig s0) * cols (gridConfig s0)" by auto
    then have "readPattern ?s (patternIndex (innerHeight ?s > innerWidth ?s) (gridConfig ?s) (int i))
                 = Some (patterns ?s ! nat j)"
      using False len by (simp add: renderQuilt_frame patternIndex_def readPattern_def lookup_def)
    then show ?thesis by (rule exportCell_reads)
  qed
  then have "\<forall>i\<in>set [0..<nat (rows_st ?s * cols_st ?s)].
               \<exists>ops. exportCell ?s (cols_st ?s) 100 (int i) = Inr ops"
    by (simp add: prod)
  from exportCells_complete[OF this] obtain ops where
    "exportCells ?s (cols_st ?s) 100 [0..<nat (rows_st ?s * cols_st ?s)] = Inr ops" by blast
  then show ?thesis by (simp add: exportQuiltAsPNG_def Let_def)
qed

lemma show_int_example: "show_int 1714564800000 = ''1714564800000''"
  by (simp add: show_int_def digits.simps)

text \<open>
  C8 as stated fails: the export of the example session on a portrait window (grid
  configured as 6 rows by 8 columns, shown as 8 rows by 6 columns) is 600 pixels wide
  and 800 pixels high, not \<open>gridConfig.cols * 100 = 800\<close> wide and
  \<open>gridConfig.rows * 100 = 600\<close> high.
\<close>

theorem exportQuiltAsPNG_portrait_counterexample:
  "(case exportQuiltAsPNG 1714564800000 True (fst (renderQuilt (example_session 400 800))) of
      Inl e \<Rightarrow> None
    | Inr (cv, dl) \<Rightarrow> Some (width cv, height cv, dl))
     = Some (600, 800, Some ''quilt-1714564800000.png'')
   \<and> cols (gridConfig (fst (renderQuilt (example_session 400 800)))) * 100 = 800
   \<and> rows (gridConfig (fst (renderQuilt (example_session 400 800)))) * 100 = 600"
proof -
  let ?s = "fst (renderQuilt (example_session 400 800))"
  obtain cv dl where r: "exportQuiltAsPNG 1714564800000 True ?s = Inr (cv, dl)"
    using exportQuiltAsPNG_after_render[of "example_session 400 800" 1714564800000 True]
    by (auto simp add: example_fields)
  have o: "rows_st ?s = 8" "cols_st ?s = 6"
    by (simp_all add: renderQuilt_frame updateOrientation_def example_fields)
  have g: "gridConfig ?s = \<lparr>rows = 6, cols = 8\<rparr>"
    by (simp add: renderQuilt_frame example_fields)
  show ?thesis
    using exportQuiltAsPNG_result[OF r]
    by (simp add: r o g show_int_example)
qed

text \<open>
  C8, amended. \<^verbatim>\<open>exportQuiltAsPNG\<close> produces an image \<open>cols * 100\<close> pixels wide and
  \<open>rows * 100\<close> pixels high, where \<open>rows\<close> and \<open>cols\<close> are the current display dimensions
  (the variables that \<^verbatim>\<open>updateOrientation\<close> sets): after a render these are the configured
  dimensions, or the configured dimensions swapped where the window's orientation
  differs from the configured aspect, so the image has \<open>gridConfig.rows * gridConfig.cols\<close>
  cells of 100 by 100 pixels in either case. The file offered, when the canvas yields a
  blob, is named \<^verbatim>\<open>quilt-<Date.now()>.png\<close>. After a render the export completes (on a
  landscape window for positive configured rows and columns).
\<close>

theorem exportQuiltAsPNG_resolution:
  "(\<forall>cv dl. exportQuiltAsPNG now blob s = Inr (cv, dl) \<longrightarrow>
       width cv = cols_st s * 100 \<and> height cv = rows_st s * 100
     \<and> dl = (if blob then Some (''quilt-'' @ show_int now @ ''.png'') else None))
   \<and> (innerHeight s0 > innerWidth s0
        \<or> (1 \<le> rows (gridConfig s0) \<and> 1 \<le> cols (gridConfig s0)) \<longrightarrow>
       (\<exists>cv dl. exportQuiltAsPNG now blob (fst (renderQuilt s0)) = Inr (cv, dl)))
   \<and> (rows_st (fst (renderQuilt s0)), cols_st (fst (renderQuilt s0)))
       = (if (innerHeight s0 > innerWidth s0 \<and> cols (gridConfig s0) > rows (gridConfig s0))
             \<or> (\<not> innerHeight s0 > innerWidth s0 \<and> \<not> cols (gridConfig s0) > rows (gridConfig s0))
          then (cols (gridConfig s0), rows (gridConfig s0))
          else (rows (gridConfig s0), cols (gridConfig s0)))
   \<and> rows_st (fst (renderQuilt s0)) * cols_st (fst (renderQuilt s0))
       = rows (gridConfig s0) * cols (gridConfig s0)"
proof (intro conjI allI impI)
  fix cv dl assume r: "exportQuiltAsPNG now blob s = Inr (cv, dl)"
  from exportQuiltAsPNG_result[OF r]
  show "width cv = cols_st s * 100" "height cv = rows_st s * 100"
    "dl = (if blob then Some (''quilt-'' @ show_int now @ ''.png'') else None)"
    by simp_all
next
  assume "innerHeight s0 > innerWidth s0
        \<or> (1 \<le> rows (gridConfig s0) \<and> 1 \<le> cols (gridConfig s0))"
  then show "\<exists>cv dl. exportQuiltAsPNG now blob (fst (renderQuilt s0)) = Inr (cv, dl)"
    by (rule exportQuiltAsPNG_after_render)
next
  show "(rows_st (fst (renderQuilt s0)), cols_st (fst (renderQuilt s0)))
       = (if (innerHeight s0 > innerWidth s0 \<and> cols (gridConfig s0) > rows (gridConfig s0))
             \<or> (\<not> innerHeight s0 > innerWidth s0 \<and> \<not> cols (gridConfig s0) > rows (gridConfig s0))
          then (cols (gridConfig s0), rows (gridConfig s0))
          else (rows (gridConfig s0), cols (gridConfig s0)))"
    by (auto simp add: renderQuilt_frame updateOrientation_def Let_def)
next
  show "rows_st (fst (renderQuilt s0)) * cols_st (fst (renderQuilt s0))
       = rows (gridConfig s0) * cols (gridConfig s0)"
    by (simp add: renderQuilt_frame updateOrientation_product)
qed

theorem exportQuiltAsPNG_resolution_witness:
  "(case exportQuiltAsPNG 1714564800000 True (fst (renderQuilt (example_session 1200 800))) of
      Inl e \<Rightarrow> None
    | Inr (cv, dl) \<Rightarrow> Some (width cv, height cv, dl))
     = Some (800, 600, Some ''quilt-1714564800000.png'')"
proof -
  let ?s0 = "example_session 1200 800"
  note t = exportQuiltAsPNG_resolution [of 1714564800000 True "fst (renderQuilt ?s0)" ?s0]
  from t obtain cv dl where
    r: "exportQuiltAsPNG 1714564800000 True (fst (renderQuilt ?s0)) = Inr (cv, dl)"
    by (auto simp add: example_fields)
  have o: "rows_st (fst (renderQuilt ?s0)) = 6" "cols_st (fst (renderQuilt ?s0)) = 8"
    using t by (simp_all add: example_fields)
  from t r have "width cv = cols_st (fst (renderQuilt ?s0)) * 100
      \<and> height cv = rows_st (fst (renderQuilt ?s0)) * 100
      \<and> dl = Some (''quilt-'' @ show_int 1714564800000 @ ''.png'')"
    by simp
  then show ?thesis by (simp add: r o show_int_example)
qed

section \<open>The two renderers compared\<close>

lemma upt_3: "[0..<3] = [0, 1, 2::nat]" by (simp add: upt_rec)
lemma upt_4: "[0..<4] = [0, 1, 2, 3::nat]" by (simp add: upt_rec)
lemma upt_5: "[0..<5] = [0, 1, 2, 3, 4::nat]" by (simp add: upt_rec)

lemma colors1: "length xs = 1 \<Longrightarrow> \<exists>a. xs = [a]"
  by (cases xs) auto
lemma colors2: "length xs = 2 \<Longrightarrow> \<exists>a b. xs = [a, b]"
  by (auto simp add: length_Suc_conv numeral_2_eq_2)
lemma colors3: "length xs = 3 \<Longrightarrow> \<exists>a b c. xs = [a, b, c]"
  by (auto simp add: length_Suc_conv numeral_3_eq_3)
lemma colors4: "length xs = 4 \<Longrightarrow> \<exists>a b c d. xs = [a, b, c, d]"
proof -
  assume "length xs = 4"
  then have "length xs = Suc (Suc (Suc (Suc 0)))" by simp
  then show ?thesis by (auto simp add: length_Suc_conv)
qed
lemma colors5: "length xs = 5 \<Longrightarrow> \<exists>a b c d e. xs = [a, b, c, d, e]"
proof -
  assume "length xs = 5"
  then have "length xs = Suc (Suc (Suc (Suc (Suc 0))))" by simp
  then show ?thesis by (auto simp add: length_Suc_conv)
qed

lemma solid_agree:
  assumes "ptype p = Solid" "colors p = [a]"
  shows "\<exists>st. getPatternStyle p = Inr st \<and> styleFills S st = canvasFills (drawPattern S p) ctx0"
  using assms
  by (simp add: getPatternStyle_def lookup_def styleFills_def drawPattern_def ctx0_def)

lemma horizontal_agree:
  assumes "ptype p = Horizontal" "colors p = [a, b, c, d, e]"
  shows "\<exists>st. getPatternStyle p = Inr st \<and> styleFills S st = canvasFills (drawPattern S p) ctx0"
  using assms
  by (simp add: getPatternStyle_def gradientStops_def template_def lookup_def styleFills_def gradientFill_def svgFill_def escaped_def drawPattern_def triangle_def ctx0_def Let_def upt_3 upt_4 upt_5)

lemma vertical_agree:
  assumes "ptype p = Vertical" "colors p = [a, b, c, d, e]"
  shows "\<exists>st. getPatternStyle p = Inr st \<and> styleFills S st = canvasFills (drawPattern S p) ctx0"
  using assms
  by (simp add: getPatternStyle_def gradientStops_def template_def lookup_def styleFills_def gradientFill_def svgFill_def escaped_def drawPattern_def triangle_def ctx0_def Let_def upt_3 upt_4 upt_5)

lemma diagonal_agree:
  assumes "ptype p = Diagonal" "colors p = [a, b, c, d, e]"
  shows "\<exists>st. getPatternStyle p = Inr st \<and> styleFills S st = canvasFills (drawPattern S p) ctx0"
  using assms
  by (simp add: getPatternStyle_def gradientStops_def template_def lookup_def styleFills_def gradientFill_def svgFill_def escaped_def drawPattern_def triangle_def ctx0_def Let_def upt_3 upt_4 upt_5)

lemma checkerboard_agree:
  assumes "ptype p = Checkerboard" "colors p = [a, b]"
  shows "\<exists>st. getPatternStyle p = Inr st \<and> styleFills S st = escaped (canvasFills (drawPattern S p) ctx0)"
  using assms
  by (simp add: getPatternStyle_def gradientStops_def template_def lookup_def styleFills_def gradientFill_def svgFill_def escaped_def drawPattern_def triangle_def ctx0_def Let_def upt_3 upt_4 upt_5)

lemma quartersquare_agree:
  assumes "ptype p = Quartersquare" "colors p = [a, b, c, d]"
  shows "\<exists>st. getPatternStyle p = Inr st \<and> styleFills S st = escaped (canvasFills (drawPattern S p) ctx0)"
  using assms
  by (simp add: getPatternStyle_def gradientStops_def template_def lookup_def styleFills_def gradientFill_def svgFill_def escaped_def drawPattern_def triangle_def ctx0_def Let_def upt_3 upt_4 upt_5)

lemma pinwheel_agree:
  assumes "ptype p = Pinwheel" "colors p = [a, b]"
  shows "\<exists>st. getPatternStyle p = Inr st \<and> styleFills S st = escaped (canvasFills (drawPattern S p) ctx0)"
  using assms
  by (simp add: getPatternStyle_def gradientStops_def template_def lookup_def styleFills_def gradientFill_def svgFill_def escaped_def drawPattern_def triangle_def ctx0_def Let_def upt_3 upt_4 upt_5)

lemma ninepatch_agree:
  assumes "ptype p = Ninepatch" "colors p = [a, b, c]"
  shows "\<exists>st. getPatternStyle p = Inr st
     \<and> map (\<lambda>(f, r, k). (f, k)) (styleFills S st)
         = map (\<lambda>(f, r, k). (f, k)) (escaped (canvasFills (drawPattern S p) ctx0))
     \<and> map (\<lambda>(f, r, k). r) (styleFills S st)
         = concat (map (\<lambda>row. map (\<lambda>col.
             Box (real col * 33.33 * S / 100) (real row * 33.33 * S / 100)
               (33.34 * S / 100) (33.34 * S / 100)) [0..<3]) [0..<(3::nat)])
     \<and> map (\<lambda>(f, r, k). r) (canvasFills (drawPattern S p) ctx0)
         = concat (map (\<lambda>row. map (\<lambda>col.
             Box (real col * (S / 3)) (real row * (S / 3)) (S / 3) (S / 3)) [0..<3]) [0..<(3::nat)])"
  using assms
  by (simp add: getPatternStyle_def gradientStops_def template_def lookup_def styleFills_def gradientFill_def svgFill_def escaped_def drawPattern_def triangle_def ctx0_def Let_def upt_3 upt_4 upt_5)

text \<open>
  For every pattern whose colours are as many as its kind requires, the fills of the
  raster renderer for a square of any size are the description of the style renderer
  scaled to that size, region by region and with the same colour slots, for the kinds
  solid, horizontal, vertical, diagonal, checkerboard, quartersquare and pinwheel (the
  bands of a gradient read along its gradient line; the colours of the SVG kinds
  written with \<^verbatim>\<open>#\<close> as \<^verbatim>\<open>%23\<close>). For the nine patch the nine cells are painted in the same
  order with the same colour slots; the SVG text writes the thirds of the unit square
  as 33.33 and the cell size as 33.34, within a hundredth of the exact thirds that the
  raster renderer uses.
\<close>

lemma renderers_agree_other_kinds:
  assumes "validPattern p"
  shows "(ptype p \<in> {Solid, Horizontal, Vertical, Diagonal} \<longrightarrow>
           (\<exists>st. getPatternStyle p = Inr st
              \<and> styleFills S st = canvasFills (drawPattern S p) ctx0))
       \<and> (ptype p \<in> {Checkerboard, Quartersquare, Pinwheel} \<longrightarrow>
           (\<exists>st. getPatternStyle p = Inr st
              \<and> styleFills S st = escaped (canvasFills (drawPattern S p) ctx0)))
       \<and> (ptype p = Ninepatch \<longrightarrow>
           (\<exists>st. getPatternStyle p = Inr st
              \<and> map (\<lambda>(f, r, k). (f, k)) (styleFills S st)
                  = map (\<lambda>(f, r, k). (f, k)) (escaped (canvasFills (drawPattern S p) ctx0))
              \<and> map (\<lambda>(f, r, k). r) (styleFills S st)
                  = concat (map (\<lambda>row. map (\<lambda>col.
                      Box (real col * 33.33 * S / 100) (real row * 33.33 * S / 100)
                        (33.34 * S / 100) (33.34 * S / 100)) [0..<3]) [0..<(3::nat)])
              \<and> map (\<lambda>(f, r, k). r) (canvasFills (drawPattern S p) ctx0)
                  = concat (map (\<lambda>row. map (\<lambda>col.
                      Box (real col * (S / 3)) (real row * (S / 3)) (S / 3) (S / 3))
                        [0..<3]) [0..<(3::nat)])))"
proof (cases "ptype p")
  case Solid
  with assms obtain a where "colors p = [a]"
    using colors1[of "colors p"] by (auto simp add: validPattern_def numColors_def)
  with Solid show ?thesis using solid_agree[of p a S] by simp
next
  case Horizontal
  with assms obtain a b c d e where "colors p = [a, b, c, d, e]"
    using colors5[of "colors p"] by (auto simp add: validPattern_def numColors_def)
  with Horizontal show ?thesis using horizontal_agree[of p a b c d e S] by simp
next
  case Vertical
  with assms obtain a b c d e where "colors p = [a, b, c, d, e]"
    using colors5[of "colors p"] by (auto simp add: validPattern_def numColors_def)
  with Vertical show ?thesis using vertical_agree[of p a b c d e S] by simp
next
  case Diagonal
  with assms obtain a b c d e where "colors p = [a, b, c, d, e]"
    using colors5[of "colors p"] by (auto simp add: validPattern_def numColors_def)
  with Diagonal show ?thesis using diagonal_agree[of p a b c d e S] by simp
next
  case Checkerboard
  with assms obtain a b where "colors p = [a, b]"
    using colors2[of "colors p"] by (auto simp add: validPattern_def numColors_def)
  with Checkerboard show ?thesis using checkerboard_agree[of p a b S] by simp
next
  case Quartersquare
  with assms obtain a b c d where "colors p = [a, b, c, d]"
    using colors4[of "colors p"] by (auto simp add: validPattern_def numColors_def)
  with Quartersquare show ?thesis using quartersquare_agree[of p a b c d S] by simp
next
  case Ninepatch
  with assms obtain a b c where "colors p = [a, b, c]"
    using colors3[of "colors p"] by (auto simp add: validPattern_def numColors_def)
  with Ninepatch show ?thesis using ninepatch_agree[of p a b c S] by simp
next
  case Pinwheel
  with assms obtain a b where "colors p = [a, b]"
    using colors2[of "colors p"] by (auto simp add: validPattern_def numColors_def)
  with Pinwheel show ?thesis using pinwheel_agree[of p a b S] by simp
next
  case Flyinggeese
  then show ?thesis by simp
qed


lemma renderers_agree_checkerboard_example:
  "validPattern checkerboard_example
   \<and> (\<exists>st. getPatternStyle checkerboard_example = Inr st
          \<and> styleFills 100 st
              = escaped (canvasFills (drawPattern 100 checkerboard_example) ctx0))
   \<and> take 2 (escaped (canvasFills (drawPattern 100 checkerboard_example) ctx0))
       = [([], Box 0 0 25 25, Some ''%23ff0000''), ([], Box 25 0 25 25, Some ''%230000ff'')]"
proof -
  have v: "validPattern checkerboard_example"
    by (simp add: checkerboard_example_def validPattern_def numColors_def)
  have k: "ptype checkerboard_example = Checkerboard"
    by (simp add: checkerboard_example_def)
  have e: "take 2 (escaped (canvasFills (drawPattern 100 checkerboard_example) ctx0))
       = [([], Box 0 0 25 25, Some ''%23ff0000''), ([], Box 25 0 25 25, Some ''%230000ff'')]"
    by (simp add: checkerboard_example_def drawPattern_def lookup_def ctx0_def Let_def upt_4
        escaped_def)
  show ?thesis
    using renderers_agree_other_kinds [OF v, of 100] v e by (simp add: k)
qed

text \<open>
  C9. The raster renderer should fill the same regions with the same colour slots as
  the style renderer, for all nine kinds. For the flying geese it does not: the branch
  of \<^verbatim>\<open>exportQuiltAsPNG\<close> closes the top right and the bottom right background triangle at
  \<open>(halfX, halfY)\<close>, the centre \<open>(50, 50)\<close>, where \<^verbatim>\<open>getPatternStyle\<close> closes them at the
  middle of the right edge \<open>(100, 50)\<close>. The fourth and the sixth polygon below differ; the
  raster triangles lie over the right goose, painted before them, and leave the two
  right corners of the square unpainted. Frames and colour slots are the same.
\<close>

theorem flyinggeese_raster_background_differs:
  "(\<exists>st. getPatternStyle flyinggeese_example = Inr st
      \<and> map (\<lambda>(f, r, k). r) (styleFills 100 st) =
          [Polygon [(0, 0), (0, 100), (50, 50)], Polygon [(50, 0), (50, 100), (100, 50)],
           Polygon [(0, 0), (50, 0), (50, 50)], Polygon [(50, 0), (100, 0), (100, 50)],
           Polygon [(0, 100), (50, 100), (50, 50)], Polygon [(50, 100), (100, 100), (100, 50)]]
      \<and> map (\<lambda>(f, r, k). (f, k)) (styleFills 100 st)
          = map (\<lambda>(f, r, k). (f, k))
              (escaped (canvasFills (drawPattern 100 flyinggeese_example) ctx0))
      \<and> styleFills 100 st
          \<noteq> escaped (canvasFills (drawPattern 100 flyinggeese_example) ctx0))
   \<and> map (\<lambda>(f, r, k). r) (canvasFills (drawPattern 100 flyinggeese_example) ctx0) =
          [Polygon [(0, 0), (0, 100), (50, 50)], Polygon [(50, 0), (50, 100), (100, 50)],
           Polygon [(0, 0), (50, 0), (50, 50)], Polygon [(50, 0), (100, 0), (50, 50)],
           Polygon [(0, 100), (50, 100), (50, 50)], Polygon [(50, 100), (100, 100), (50, 50)]]"
  by (simp add: flyinggeese_example_def getPatternStyle_def gradientStops_def template_def lookup_def styleFills_def gradientFill_def svgFill_def escaped_def drawPattern_def triangle_def ctx0_def Let_def upt_3 upt_4 upt_5)


end
